theory Spec2Isabelle
  imports
    Complex_Main
    "HOL-Library.Sublist"
    "HOL-Library.Char_ord"
    "HOL-Library.List_Lexorder"
    "HOL-Library.Product_Lexorder"
begin

chapter \<open>The model\<close>

section \<open>Data model\<close>

text \<open>
  The structures of \<^verbatim>\<open>predicators.src.structs\<close> that the learning code works on.
  A type is known by its name. Objects and variables are typed entities (a name and a
  type) and are ordered, since the code sorts them. A predicate is known by its name and
  argument types; its classifier is not part of its identity, so classifiers are supplied
  separately as a function \<open>holds\<close> from predicates to classifiers
  (\<^verbatim>\<open>Predicate.holds(state, objects)\<close>).
\<close>

type_synonym ty = string

datatype obj = Object (obj_name: string) (obj_type: ty)

datatype var = Variable (var_name: string) (var_type: ty)

datatype pred = Pred (pred_name: string) (pred_types: "ty list")

datatype 'a atom = Atom (atom_pred: pred) (atom_args: "'a list")

type_synonym ground_atom = "obj atom"

type_synonym lifted_atom = "var atom"

text \<open>A state maps each of its objects to a feature vector.\<close>

type_synonym state = "obj \<rightharpoonup> real list"

type_synonym classifier = "state \<Rightarrow> obj list \<Rightarrow> bool"

text \<open>The bounded box of an option's continuous parameters (\<^verbatim>\<open>gym.spaces.Box\<close>).\<close>

datatype box = Box (box_low: "real list") (box_high: "real list")

datatype param_option =
  ParameterizedOption (po_name: string) (po_types: "ty list") (po_params_space: box)

datatype ground_option =
  GroundOption (opt_parent: param_option) (opt_objects: "obj list") (opt_params: "real list")

text \<open>
  A transition is the 7-tuple \<^verbatim>\<open>(state, next_state, atoms, option, next_atoms,
  add_effects, delete_effects)\<close>.
\<close>

record transition =
  tr_state :: state
  tr_next_state :: state
  tr_atoms :: "ground_atom set"
  tr_option :: ground_option
  tr_next_atoms :: "ground_atom set"
  tr_add_effects :: "ground_atom set"
  tr_delete_effects :: "ground_atom set"

datatype error =
  AssertionError | KeyError | IndexError | ValueError | UnboundLocalError | ApproachFailure

subsection \<open>Orderings used by \<^verbatim>\<open>sorted\<close>\<close>

instantiation obj :: linorder
begin

definition less_eq_obj :: "obj \<Rightarrow> obj \<Rightarrow> bool" where
  "less_eq_obj a b \<longleftrightarrow> (obj_name a, obj_type a) \<le> (obj_name b, obj_type b)"

definition less_obj :: "obj \<Rightarrow> obj \<Rightarrow> bool" where
  "less_obj a b \<longleftrightarrow> (obj_name a, obj_type a) < (obj_name b, obj_type b)"

instance
  by standard (auto simp: less_eq_obj_def less_obj_def obj.expand)

end

instantiation var :: linorder
begin

definition less_eq_var :: "var \<Rightarrow> var \<Rightarrow> bool" where
  "less_eq_var a b \<longleftrightarrow> (var_name a, var_type a) \<le> (var_name b, var_type b)"

definition less_var :: "var \<Rightarrow> var \<Rightarrow> bool" where
  "less_var a b \<longleftrightarrow> (var_name a, var_type a) < (var_name b, var_type b)"

instance
  by standard (auto simp: less_eq_var_def less_var_def var.expand)

end

instantiation pred :: linorder
begin

definition less_eq_pred :: "pred \<Rightarrow> pred \<Rightarrow> bool" where
  "less_eq_pred a b \<longleftrightarrow> (pred_name a, pred_types a) \<le> (pred_name b, pred_types b)"

definition less_pred :: "pred \<Rightarrow> pred \<Rightarrow> bool" where
  "less_pred a b \<longleftrightarrow> (pred_name a, pred_types a) < (pred_name b, pred_types b)"

instance
  by standard (auto simp: less_eq_pred_def less_pred_def pred.expand)

end

instantiation atom :: (linorder) linorder
begin

definition less_eq_atom :: "'a atom \<Rightarrow> 'a atom \<Rightarrow> bool" where
  "less_eq_atom a b \<longleftrightarrow> (atom_pred a, atom_args a) \<le> (atom_pred b, atom_args b)"

definition less_atom :: "'a atom \<Rightarrow> 'a atom \<Rightarrow> bool" where
  "less_atom a b \<longleftrightarrow> (atom_pred a, atom_args a) < (atom_pred b, atom_args b)"

instance
  by standard (auto simp: less_eq_atom_def less_atom_def atom.expand)

end

section \<open>Helpers of \<^verbatim>\<open>predicators.src.utils\<close>\<close>

text \<open>
  Modelled from the spec: \<^verbatim>\<open>utils.get_object_combinations\<close> is not among the source
  files. The spec (section 3) has predicates applied to ``every valid object-argument
  combination in a state (no duplicate objects within one application unless the
  predicate permits it)'': every tuple of the given objects whose types are the given
  types, position by position, taken in the order of the sorted objects.
\<close>

definition get_object_combinations :: "obj list \<Rightarrow> ty list \<Rightarrow> bool \<Rightarrow> obj list list" where
  "get_object_combinations objects types allow_duplicates =
     filter (\<lambda>choice. allow_duplicates \<or> distinct choice)
       (product_lists (map (\<lambda>t. filter (\<lambda>ob. obj_type ob = t) (sort objects)) types))"

text \<open>Iterating over a state yields its objects in sorted order.\<close>

definition state_objects :: "state \<Rightarrow> obj list" where
  "state_objects s = sorted_list_of_set (dom s)"

text \<open>
  Modelled from the spec: \<^verbatim>\<open>utils.abstract\<close> is not among the source files. The spec
  (section 3): ``Abstract atoms are computed by applying every predicate's classifier to
  every valid object-argument combination in a state''.
\<close>

definition abstract :: "(pred \<Rightarrow> classifier) \<Rightarrow> state \<Rightarrow> pred set \<Rightarrow> ground_atom set" where
  "abstract holds s preds =
     {Atom p choice | p choice.
        p \<in> preds \<and> choice \<in> set (get_object_combinations (state_objects s) (pred_types p) False)
        \<and> holds p s choice}"

section \<open>Generating transitions (\<^verbatim>\<open>operator_learning.generate_transitions\<close>)\<close>

text \<open>
  \<^verbatim>\<open>transitions_by_option\<close> is a \<^verbatim>\<open>defaultdict(list)\<close>: a dictionary in insertion
  order, here a list of keys with their transition lists. \<open>append_transition\<close> is
  \<^verbatim>\<open>d[k].append(t)\<close> on such a dictionary.
\<close>

type_synonym transitions_by_option = "(param_option \<times> transition list) list"

fun append_transition ::
  "('k \<times> transition list) list \<Rightarrow> 'k \<Rightarrow> transition \<Rightarrow> ('k \<times> transition list) list" where
  "append_transition [] k t = [(k, [t])]"
| "append_transition ((k', ts) # rest) k t =
     (if k' = k then (k', ts @ [t]) # rest else (k', ts) # append_transition rest k t)"

text \<open>The body of the loop over \<^verbatim>\<open>enumerate(options)\<close> (lines 54 to 60).\<close>

definition make_transition ::
  "(pred \<Rightarrow> classifier) \<Rightarrow> pred set \<Rightarrow> state \<Rightarrow> state \<Rightarrow> ground_option \<Rightarrow> transition" where
  "make_transition holds predicates s s' opt =
     (let atoms = abstract holds s predicates;
          next_atoms = abstract holds s' predicates;
          add_effects = next_atoms - atoms;
          delete_effects = atoms - next_atoms
      in \<lparr> tr_state = s, tr_next_state = s', tr_atoms = atoms, tr_option = opt,
           tr_next_atoms = next_atoms, tr_add_effects = add_effects,
           tr_delete_effects = delete_effects \<rparr>)"

text \<open>
  The states are consumed pairwise; the caller has checked
  \<^verbatim>\<open>len(states) == len(options) + 1\<close>, so \<^verbatim>\<open>states[i]\<close> and \<^verbatim>\<open>states[i+1]\<close>
  exist for every option.
\<close>

fun trajectory_transitions ::
  "(pred \<Rightarrow> classifier) \<Rightarrow> pred set \<Rightarrow> state list \<Rightarrow> ground_option list
     \<Rightarrow> transitions_by_option \<Rightarrow> transitions_by_option" where
  "trajectory_transitions holds predicates (s # s' # ss) (opt # opts) tbo =
     trajectory_transitions holds predicates (s' # ss) opts
       (append_transition tbo (opt_parent opt) (make_transition holds predicates s s' opt))"
| "trajectory_transitions holds predicates ss opts tbo = tbo"

text \<open>
  \<^verbatim>\<open>utils.action_to_option_trajectory\<close> is not among the source files; it is the
  parameter \<open>a2o\<close>, which may fail (an action without an option).
\<close>

fun generate_transitions_from ::
  "('traj \<Rightarrow> error + state list \<times> ground_option list) \<Rightarrow> (pred \<Rightarrow> classifier)
     \<Rightarrow> 'traj list \<Rightarrow> pred set \<Rightarrow> transitions_by_option \<Rightarrow> error + transitions_by_option" where
  "generate_transitions_from a2o holds [] predicates tbo = Inr tbo"
| "generate_transitions_from a2o holds (act_traj # dataset) predicates tbo =
     (case a2o act_traj of
        Inl e \<Rightarrow> Inl e
      | Inr (states, options) \<Rightarrow>
          if length states \<noteq> length options + 1 then Inl AssertionError
          else generate_transitions_from a2o holds dataset predicates
                 (trajectory_transitions holds predicates states options tbo))"

definition generate_transitions ::
  "('traj \<Rightarrow> error + state list \<times> ground_option list) \<Rightarrow> (pred \<Rightarrow> classifier)
     \<Rightarrow> 'traj list \<Rightarrow> pred set \<Rightarrow> error + transitions_by_option" where
  "generate_transitions a2o holds dataset predicates =
     generate_transitions_from a2o holds dataset predicates []"

text \<open>
  The re-abstraction of one stored transition with a new predicate and its negation
  (\<^verbatim>\<open>IterativeInventionApproach.learn_from_offline_dataset\<close>, lines 57 to 66).
\<close>

definition reabstract ::
  "(pred \<Rightarrow> classifier) \<Rightarrow> pred \<Rightarrow> pred \<Rightarrow> transition \<Rightarrow> transition" where
  "reabstract holds new_predicate neg_new_predicate t =
     (let atoms = tr_atoms t \<union> abstract holds (tr_state t) {new_predicate, neg_new_predicate};
          next_atoms = tr_next_atoms t
            \<union> abstract holds (tr_next_state t) {new_predicate, neg_new_predicate};
          add_effects = next_atoms - atoms;
          delete_effects = atoms - next_atoms
      in \<lparr> tr_state = tr_state t, tr_next_state = tr_next_state t, tr_atoms = atoms,
           tr_option = tr_option t, tr_next_atoms = next_atoms,
           tr_add_effects = add_effects, tr_delete_effects = delete_effects \<rparr>)"

text \<open>The effect invariant of a transition.\<close>

definition effects_consistent :: "transition \<Rightarrow> bool" where
  "effects_consistent t \<longleftrightarrow>
     tr_add_effects t \<inter> tr_delete_effects t = {}
     \<and> tr_next_atoms t = (tr_atoms t - tr_delete_effects t) \<union> tr_add_effects t"

definition all_transitions :: "transitions_by_option \<Rightarrow> transition set" where
  "all_transitions tbo = (\<Union>(k, ts) \<in> set tbo. set ts)"

section \<open>The one-cup scenario of \<^verbatim>\<open>tests/test_sampler_learning.py\<close>\<close>

definition cup_type :: ty where
  "cup_type = ''cup_type''"

definition cup0 :: obj where
  "cup0 = Object ''cup0'' cup_type"

definition var_cup0 :: var where
  "var_cup0 = Variable ''?cup0'' cup_type"

definition pred0 :: pred where
  "pred0 = Pred ''Pred0'' [cup_type]"

text \<open>The classifier \<^verbatim>\<open>lambda s, o: s[o[0]][0] > 0.5\<close>.\<close>

definition pred0_holds :: "pred \<Rightarrow> classifier" where
  "pred0_holds p s objs =
     (case objs of
        [ob] \<Rightarrow> (case s ob of Some (f # fs) \<Rightarrow> f > 0.5 | _ \<Rightarrow> False)
      | _ \<Rightarrow> False)"

definition dummy :: param_option where
  "dummy = ParameterizedOption ''dummy'' [] (Box [0.1] [1])"

definition dummy_option :: ground_option where
  "dummy_option = GroundOption dummy [] [0.3]"

definition state04 :: state where
  "state04 = [cup0 \<mapsto> [0.4]]"

definition state09 :: state where
  "state09 = [cup0 \<mapsto> [0.9]]"

text \<open>Transition 1 adds \<open>Pred0(cup0)\<close>; transition 2 does nothing.\<close>

definition transition1 :: transition where
  "transition1 = make_transition pred0_holds {pred0} state04 state09 dummy_option"

definition transition2 :: transition where
  "transition2 = make_transition pred0_holds {pred0} state04 state04 dummy_option"

section \<open>The learned sampler (\<^verbatim>\<open>operator_learning._LearnedSampler\<close>)\<close>

text \<open>
  \<^verbatim>\<open>dict(zip(keys, values))\<close>: when a key occurs twice, the later pair wins.
\<close>

definition dict_zip :: "'k list \<Rightarrow> 'v list \<Rightarrow> 'k \<rightharpoonup> 'v" where
  "dict_zip ks vs = map_of (rev (zip ks vs))"

text \<open>
  The feature vector \<^verbatim>\<open>x_lst\<close>: the loop \<^verbatim>\<open>for var in variables:
  x_lst.extend(state[sub[var]])\<close>. A variable without an object, or an object that the
  state does not have, is a \<^verbatim>\<open>KeyError\<close>.
\<close>

fun extend_features :: "(var \<rightharpoonup> obj) \<Rightarrow> state \<Rightarrow> var list \<Rightarrow> real list \<Rightarrow> error + real list" where
  "extend_features sub s [] x_lst = Inr x_lst"
| "extend_features sub s (v # vs) x_lst =
     (case sub v of
        None \<Rightarrow> Inl KeyError
      | Some ob \<Rightarrow>
          (case s ob of
             None \<Rightarrow> Inl KeyError
           | Some feats \<Rightarrow> extend_features sub s vs (x_lst @ feats)))"

text \<open>\<^verbatim>\<open>Box.contains\<close>: the right length and every coordinate within its bounds.\<close>

definition box_contains :: "box \<Rightarrow> real list \<Rightarrow> bool" where
  "box_contains space p \<longleftrightarrow>
     length p = length (box_low space)
     \<and> list_all2 (\<le>) (box_low space) p \<and> list_all2 (\<le>) p (box_high space)"

text \<open>
  \<^verbatim>\<open>_LearnedSampler\<close>. The classifier and the regressor of
  \<^verbatim>\<open>predicators.src.models\<close> are not among the source files: the record holds
  what the sampler calls of them, \<^verbatim>\<open>classify\<close> and \<^verbatim>\<open>predict_sample\<close>. The
  latter draws from the random generator, whose state \<open>'r\<close> is passed in and returned;
  the cast of the drawn vector to the dtype of the parameter space is part of the draw.
\<close>

record 'r learned_sampler =
  ls_classify :: "real list \<Rightarrow> bool"
  ls_predict_sample :: "real list \<Rightarrow> 'r \<Rightarrow> real list \<times> 'r"
  ls_variables :: "var list"
  ls_param_option :: param_option

text \<open>The test of line 362: in the parameter space, and classified positive.\<close>

definition accepts :: "'r learned_sampler \<Rightarrow> real list \<Rightarrow> real list \<Rightarrow> bool" where
  "accepts S x params \<longleftrightarrow>
     box_contains (po_params_space (ls_param_option S)) params \<and> ls_classify S (x @ params)"

text \<open>
  The \<^verbatim>\<open>while num_rejections <= CFG.max_rejection_sampling_tries\<close> loop. It returns
  whether it left by \<^verbatim>\<open>break\<close>, the value of \<^verbatim>\<open>params\<close> (\<open>None\<close> while the
  variable is unbound) and the generator.
\<close>

function rejection_loop ::
  "'r learned_sampler \<Rightarrow> int \<Rightarrow> real list \<Rightarrow> int \<Rightarrow> real list option \<Rightarrow> 'r
     \<Rightarrow> bool \<times> real list option \<times> 'r" where
  "rejection_loop S max_tries x num_rejections params rng =
     (if num_rejections \<le> max_tries then
        (let (params', rng') = ls_predict_sample S x rng in
           if accepts S x params' then (True, Some params', rng')
           else rejection_loop S max_tries x (num_rejections + 1) (Some params') rng')
      else (False, params, rng))"
  by pat_completeness auto
termination
  by (relation "measure (\<lambda>(S, max_tries, x, num_rejections, params, rng).
        nat (max_tries + 1 - num_rejections))") auto

text \<open>
  \<^verbatim>\<open>_LearnedSampler.sampler\<close>. \<^verbatim>\<open>CFG.max_rejection_sampling_tries\<close> is not set
  in the source files and is the parameter \<open>max_tries\<close>. \<^verbatim>\<open>Box.sample\<close> draws from
  the generator of the space, of state \<open>'g\<close>; it is the parameter \<open>space_sample\<close>.
\<close>

definition sampler ::
  "'r learned_sampler \<Rightarrow> int \<Rightarrow> (box \<Rightarrow> 'g \<Rightarrow> real list \<times> 'g) \<Rightarrow> state \<Rightarrow> 'r \<Rightarrow> 'g \<Rightarrow> obj list
     \<Rightarrow> error + real list \<times> 'r \<times> 'g" where
  "sampler S max_tries space_sample s rng g objects =
     (case extend_features (dict_zip (ls_variables S) objects) s (ls_variables S) [1] of
        Inl e \<Rightarrow> Inl e
      | Inr x \<Rightarrow>
          (case rejection_loop S max_tries x 0 None rng of
             (True, Some params, rng') \<Rightarrow> Inr (params, rng', g)
           | (False, Some params, rng') \<Rightarrow>
               if \<not> box_contains (po_params_space (ls_param_option S)) params
               then (let (params', g') = space_sample (po_params_space (ls_param_option S)) g
                     in Inr (params', rng', g'))
               else Inr (params, rng', g)
           | (_, None, rng') \<Rightarrow> Inl UnboundLocalError))"

text \<open>The first \<open>n\<close> candidates that the regressor draws, starting from generator \<open>rng\<close>.\<close>

fun draw_candidates :: "(real list \<Rightarrow> 'r \<Rightarrow> real list \<times> 'r) \<Rightarrow> real list \<Rightarrow> nat \<Rightarrow> 'r \<Rightarrow> real list list" where
  "draw_candidates predict x 0 rng = []"
| "draw_candidates predict x (Suc n) rng =
     (let (params, rng') = predict x rng in params # draw_candidates predict x n rng')"

text \<open>\<^verbatim>\<open>_RandomSampler.sampler\<close> ignores its arguments and samples from the space.\<close>

definition random_sampler ::
  "param_option \<Rightarrow> (box \<Rightarrow> 'g \<Rightarrow> real list \<times> 'g) \<Rightarrow> 'g \<Rightarrow> real list \<times> 'g" where
  "random_sampler param_option space_sample g = space_sample (po_params_space param_option) g"

subsection \<open>Example samplers\<close>

text \<open>
  A sampler over the one-cup scenario whose generator state is a counter: the \<open>n\<close>-th
  draw is \<open>[n / 10]\<close>, and the classifier accepts a candidate from \<open>0.25\<close> on. A second
  one always draws \<open>[5]\<close>, outside the box \<open>[0.1, 1]\<close>.
\<close>

definition example_sampler :: "nat learned_sampler" where
  "example_sampler =
     \<lparr> ls_classify = (\<lambda>v. 0.25 \<le> last v),
       ls_predict_sample = (\<lambda>x n. ([real n / 10], Suc n)),
       ls_variables = [var_cup0],
       ls_param_option = dummy \<rparr>"

definition far_sampler :: "nat learned_sampler" where
  "far_sampler =
     \<lparr> ls_classify = (\<lambda>v. True),
       ls_predict_sample = (\<lambda>x n. ([5], Suc n)),
       ls_variables = [var_cup0],
       ls_param_option = dummy \<rparr>"

definition example_space_sample :: "box \<Rightarrow> unit \<Rightarrow> real list \<times> unit" where
  "example_space_sample space g = (box_high space, g)"

section \<open>The teacher's sparse dataset (\<^verbatim>\<open>interactive_learning_approach.create_teacher_dataset\<close>)\<close>









section \<open>Unification (\<^verbatim>\<open>operator_learning._unify\<close>)\<close>

text \<open>
  An \<^verbatim>\<open>ObjToVarSub\<close> is a dictionary from objects to variables, given by its items
  in insertion order (the keys are distinct).
\<close>

type_synonym obj_to_var_sub = "(obj \<times> var) list"

text \<open>
  Modelled from the spec: \<^verbatim>\<open>utils.wrap_atom_predicates_ground\<close> and
  \<^verbatim>\<open>utils.wrap_atom_predicates_lifted\<close> are not among the source files. The spec
  (section 4.1): ``each atom set uses a distinguishing name prefix per source''.
\<close>

definition wrap_atom_predicates :: "string \<Rightarrow> 'a atom set \<Rightarrow> 'a atom set" where
  "wrap_atom_predicates pfx atoms =
     (\<lambda>a. Atom (Pred (pfx @ pred_name (atom_pred a)) (pred_types (atom_pred a))) (atom_args a))
       ` atoms"

text \<open>
  Modelled from the spec: \<^verbatim>\<open>GroundAtom.lift\<close> and \<^verbatim>\<open>LiftedAtom.ground\<close> are not
  among the source files. The spec (section 3): ``Lifting a ground atom requires a total
  object-to-variable substitution covering its objects; grounding a lifted atom requires
  a total variable-to-object substitution''. \<open>substitute\<close> applies a substitution to one
  atom; the two functions apply it to a set of atoms, as the set comprehensions of the
  source do, and fail when the substitution does not cover an atom.
\<close>

definition substitute :: "('a \<rightharpoonup> 'b) \<Rightarrow> 'a atom \<Rightarrow> 'b atom" where
  "substitute sub a = Atom (atom_pred a) (map (\<lambda>x. the (sub x)) (atom_args a))"

definition lift_atoms :: "(obj \<rightharpoonup> var) \<Rightarrow> ground_atom set \<Rightarrow> error + lifted_atom set" where
  "lift_atoms sub atoms =
     (if \<forall>a \<in> atoms. set (atom_args a) \<subseteq> dom sub
      then Inr (substitute sub ` atoms)
      else Inl KeyError)"

definition ground_atoms :: "(var \<rightharpoonup> obj) \<Rightarrow> lifted_atom set \<Rightarrow> error + ground_atom set" where
  "ground_atoms sub atoms =
     (if \<forall>a \<in> atoms. set (atom_args a) \<subseteq> dom sub
      then Inr (substitute sub ` atoms)
      else Inl KeyError)"

text \<open>
  \<^verbatim>\<open>_unify\<close>, the wrapper around \<^verbatim>\<open>utils.unify\<close>. The latter is not among the source
  files; it is the parameter \<open>unify\<close>, which returns whether it succeeded and a
  substitution.
\<close>

definition unify' ::
  "(ground_atom set \<Rightarrow> lifted_atom set \<Rightarrow> bool \<times> obj_to_var_sub)
     \<Rightarrow> ground_atom set \<Rightarrow> ground_atom set \<Rightarrow> obj list
     \<Rightarrow> lifted_atom set \<Rightarrow> lifted_atom set \<Rightarrow> var list \<Rightarrow> bool \<times> obj_to_var_sub" where
  "unify' unify ground_add_effects ground_delete_effects ground_option_args
       lifted_add_effects lifted_delete_effects lifted_option_args =
     (let opt_arg_pred = Pred ''OPT-ARGS'' (map obj_type ground_option_args);
          f_ground_option_args = {Atom opt_arg_pred ground_option_args};
          f_new_ground_add_effects = wrap_atom_predicates ''ADD-'' ground_add_effects;
          f_new_ground_delete_effects = wrap_atom_predicates ''DEL-'' ground_delete_effects;
          f_lifted_option_args = {Atom opt_arg_pred lifted_option_args};
          f_new_lifted_add_effects = wrap_atom_predicates ''ADD-'' lifted_add_effects;
          f_new_lifted_delete_effects = wrap_atom_predicates ''DEL-'' lifted_delete_effects
      in unify
           (f_ground_option_args \<union> f_new_ground_add_effects \<union> f_new_ground_delete_effects)
           (f_lifted_option_args \<union> f_new_lifted_add_effects \<union> f_new_lifted_delete_effects))"

section \<open>Learning preconditions (\<^verbatim>\<open>operator_learning._learn_preconditions\<close>)\<close>

text \<open>The objects mentioned in the effects or the option of a transition (lines 173 to 175).\<close>

definition effect_objects :: "transition \<Rightarrow> obj set" where
  "effect_objects t =
     (\<Union>a \<in> tr_add_effects t \<union> tr_delete_effects t. set (atom_args a))
       \<union> set (opt_objects (tr_option t))"

text \<open>
  The body of the loop for one member, up to line 178 and the value of
  \<^verbatim>\<open>sorted(set(sub.values()))\<close>: the substitution stored with the member is ignored
  and the transition is unified again with the effects of the partition.
\<close>

definition member_preconditions ::
  "(ground_atom set \<Rightarrow> lifted_atom set \<Rightarrow> bool \<times> obj_to_var_sub)
     \<Rightarrow> var list \<Rightarrow> lifted_atom set \<Rightarrow> lifted_atom set \<Rightarrow> transition
     \<Rightarrow> error + var list \<times> lifted_atom set" where
  "member_preconditions unify option_vars add_effects delete_effects t =
     (let (suc, sub) = unify' unify (tr_add_effects t) (tr_delete_effects t)
                         (opt_objects (tr_option t)) add_effects delete_effects option_vars
      in if \<not> suc then Inl AssertionError
         else
           (let objects = effect_objects t;
                atoms = {a \<in> tr_atoms t. \<forall>ob \<in> set (atom_args a). ob \<in> objects}
            in case lift_atoms (map_of sub) atoms of
                 Inl e \<Rightarrow> Inl e
               | Inr lifted_atoms \<Rightarrow> Inr (sorted_list_of_set (snd ` set sub), lifted_atoms)))"

text \<open>
  The loop; the accumulator is \<open>None\<close> before the first member (\<^verbatim>\<open>i == 0\<close>), when
  \<^verbatim>\<open>variables\<close> and \<^verbatim>\<open>preconditions\<close> are still unbound.
\<close>

fun learn_preconditions_loop ::
  "(ground_atom set \<Rightarrow> lifted_atom set \<Rightarrow> bool \<times> obj_to_var_sub)
     \<Rightarrow> var list \<Rightarrow> lifted_atom set \<Rightarrow> lifted_atom set
     \<Rightarrow> (transition \<times> obj_to_var_sub) list \<Rightarrow> (var list \<times> lifted_atom set) option
     \<Rightarrow> error + (var list \<times> lifted_atom set) option" where
  "learn_preconditions_loop unify option_vars add_effects delete_effects [] acc = Inr acc"
| "learn_preconditions_loop unify option_vars add_effects delete_effects ((t, _) # rest) acc =
     (case member_preconditions unify option_vars add_effects delete_effects t of
        Inl e \<Rightarrow> Inl e
      | Inr (vars, lifted_atoms) \<Rightarrow>
          (case acc of
             None \<Rightarrow>
               learn_preconditions_loop unify option_vars add_effects delete_effects rest
                 (Some (vars, lifted_atoms))
           | Some (variables, preconditions) \<Rightarrow>
               if variables \<noteq> vars then Inl AssertionError
               else learn_preconditions_loop unify option_vars add_effects delete_effects rest
                      (Some (variables, preconditions \<inter> lifted_atoms))))"

definition learn_preconditions ::
  "(ground_atom set \<Rightarrow> lifted_atom set \<Rightarrow> bool \<times> obj_to_var_sub)
     \<Rightarrow> var list \<Rightarrow> lifted_atom set \<Rightarrow> lifted_atom set
     \<Rightarrow> (transition \<times> obj_to_var_sub) list \<Rightarrow> error + var list \<times> lifted_atom set" where
  "learn_preconditions unify option_vars add_effects delete_effects transitions =
     (case learn_preconditions_loop unify option_vars add_effects delete_effects transitions None of
        Inl e \<Rightarrow> Inl e
      | Inr None \<Rightarrow> Inl UnboundLocalError
      | Inr (Some (variables, preconditions)) \<Rightarrow> Inr (variables, preconditions))"


subsection \<open>An example\<close>

text \<open>
  A unifier for scenarios with a single object \<open>ob\<close>: the lifted atoms may mention one
  variable at most, and replacing it by \<open>ob\<close> must give the ground atoms. Transition 3
  deletes \<open>Pred0(cup0)\<close>.
\<close>

definition one_object_unify ::
  "obj \<Rightarrow> ground_atom set \<Rightarrow> lifted_atom set \<Rightarrow> bool \<times> obj_to_var_sub" where
  "one_object_unify ob ground lifted =
     (let vs = sorted_list_of_set (\<Union>a \<in> lifted. set (atom_args a))
      in if length vs \<le> 1
            \<and> (\<lambda>a. Atom (atom_pred a) (map (\<lambda>v. ob) (atom_args a))) ` lifted = ground
         then (True, map (\<lambda>v. (ob, v)) vs)
         else (False, []))"


section \<open>Examples for sampler learning (\<^verbatim>\<open>operator_learning._create_sampler_data\<close>)\<close>

text \<open>A \<^verbatim>\<open>for\<close> loop over a list that updates a state and stops at the first exception.\<close>

fun fold_error :: "('a \<Rightarrow> 's \<Rightarrow> error + 's) \<Rightarrow> 'a list \<Rightarrow> 's \<Rightarrow> error + 's" where
  "fold_error body [] s = Inr s"
| "fold_error body (x # xs) s =
     (case body x s of Inl e \<Rightarrow> Inl e | Inr s' \<Rightarrow> fold_error body xs s')"

text \<open>An example is \<^verbatim>\<open>(state, sub, option)\<close>, with \<open>sub\<close> a dictionary from variables to objects.\<close>

type_synonym datum = "state \<times> (var \<rightharpoonup> obj) \<times> ground_option"

datatype example = Positive datum | Negative datum | NoExample

text \<open>
  \<^verbatim>\<open>var_to_obj = {v: k for k, v in obj_to_var.items()}\<close> (a later item wins) and
  \<^verbatim>\<open>actual_grounding = [var_to_obj[var] for var in variables]\<close>.
\<close>

definition invert_sub :: "obj_to_var_sub \<Rightarrow> var \<rightharpoonup> obj" where
  "invert_sub obj_to_var = map_of (rev (map (\<lambda>(k, v). (v, k)) obj_to_var))"

definition actual_grounding :: "obj_to_var_sub \<Rightarrow> var list \<Rightarrow> obj list" where
  "actual_grounding obj_to_var variables = map (\<lambda>v. the (invert_sub obj_to_var v)) variables"

text \<open>The condition of the assertion of lines 259 to 261; \<open>holds\<close> gives the classifiers.\<close>

definition preconditions_hold ::
  "(pred \<Rightarrow> classifier) \<Rightarrow> state \<Rightarrow> (var \<rightharpoonup> obj) \<Rightarrow> lifted_atom set \<Rightarrow> bool" where
  "preconditions_hold holds s var_to_obj preconditions \<longleftrightarrow>
     (\<forall>pre \<in> preconditions.
        holds (atom_pred pre) s (map (\<lambda>v. the (var_to_obj v)) (atom_args pre)))"

text \<open>
  The body of the loop over the groundings (lines 255 to 276) for one grounding:
  \<open>at_partition\<close> is \<^verbatim>\<open>idx == partition_idx\<close>. A variable that \<^verbatim>\<open>var_to_obj\<close> does not
  have is a \<^verbatim>\<open>KeyError\<close>.
\<close>

definition grounding_example ::
  "(pred \<Rightarrow> classifier) \<Rightarrow> var list \<Rightarrow> lifted_atom set \<Rightarrow> lifted_atom set \<Rightarrow> lifted_atom set
     \<Rightarrow> bool \<Rightarrow> transition \<Rightarrow> obj_to_var_sub \<Rightarrow> obj list \<Rightarrow> error + example" where
  "grounding_example holds variables preconditions add_effects delete_effects
       at_partition t obj_to_var grounding =
     (let var_to_obj = invert_sub obj_to_var in
      if at_partition \<and> \<not> set variables \<subseteq> dom var_to_obj then Inl KeyError
      else if at_partition \<and> grounding = actual_grounding obj_to_var variables then
        (if \<exists>pre \<in> preconditions. \<not> set (atom_args pre) \<subseteq> dom var_to_obj then Inl KeyError
         else if \<not> preconditions_hold holds (tr_state t) var_to_obj preconditions
         then Inl AssertionError
         else Inr (Positive (tr_state t, var_to_obj, tr_option t)))
      else
        (let sub = dict_zip variables grounding in
         case ground_atoms sub add_effects of
           Inl e \<Rightarrow> Inl e
         | Inr ground_add_effects \<Rightarrow>
             (case ground_atoms sub delete_effects of
                Inl e \<Rightarrow> Inl e
              | Inr ground_delete_effects \<Rightarrow>
                  if ground_add_effects \<subseteq> tr_add_effects t
                     \<and> ground_delete_effects \<subseteq> tr_delete_effects t
                  then Inr NoExample
                  else Inr (Negative (tr_state t, sub, tr_option t)))))"

fun add_example :: "example \<Rightarrow> datum list \<times> datum list \<Rightarrow> datum list \<times> datum list" where
  "add_example (Positive d) (positive_data, negative_data) = (positive_data @ [d], negative_data)"
| "add_example (Negative d) (positive_data, negative_data) = (positive_data, negative_data @ [d])"
| "add_example NoExample (positive_data, negative_data) = (positive_data, negative_data)"

text \<open>The groundings enumerated for a transition (lines 248 to 251).\<close>

definition groundings :: "var list \<Rightarrow> transition \<Rightarrow> obj list list" where
  "groundings variables t =
     get_object_combinations (state_objects (tr_state t)) (map var_type variables) False"

text \<open>The body of the loop over the members of a partition (lines 245 to 276).\<close>

definition member_examples ::
  "(pred \<Rightarrow> classifier) \<Rightarrow> var list \<Rightarrow> lifted_atom set \<Rightarrow> lifted_atom set \<Rightarrow> lifted_atom set
     \<Rightarrow> param_option \<Rightarrow> bool \<Rightarrow> transition \<times> obj_to_var_sub
     \<Rightarrow> datum list \<times> datum list \<Rightarrow> error + datum list \<times> datum list" where
  "member_examples holds variables preconditions add_effects delete_effects param_option
       at_partition member data =
     (case member of (t, obj_to_var) \<Rightarrow>
        if opt_parent (tr_option t) \<noteq> param_option then Inl AssertionError
        else fold_error
               (\<lambda>grounding data.
                  case grounding_example holds variables preconditions add_effects
                         delete_effects at_partition t obj_to_var grounding of
                    Inl e \<Rightarrow> Inl e
                  | Inr ex \<Rightarrow> Inr (add_example ex data))
               (groundings variables t) data)"

text \<open>
  \<^verbatim>\<open>_create_sampler_data\<close>. \<open>partition_idx\<close> is an index as \<^verbatim>\<open>enumerate\<close> gives
  them; \<^verbatim>\<open>transitions[partition_idx]\<close> beyond the list is an \<^verbatim>\<open>IndexError\<close>.
\<close>

definition create_sampler_data ::
  "(pred \<Rightarrow> classifier) \<Rightarrow> (transition \<times> obj_to_var_sub) list list \<Rightarrow> var list
     \<Rightarrow> lifted_atom set \<Rightarrow> lifted_atom set \<Rightarrow> lifted_atom set \<Rightarrow> param_option \<Rightarrow> nat
     \<Rightarrow> error + datum list \<times> datum list" where
  "create_sampler_data holds transitions variables preconditions add_effects delete_effects
       param_option partition_idx =
     (case fold_error
             (\<lambda>(idx, part_transitions).
                fold_error
                  (member_examples holds variables preconditions add_effects delete_effects
                     param_option (idx = partition_idx))
                  part_transitions)
             (enumerate 0 transitions) ([], []) of
        Inl e \<Rightarrow> Inl e
      | Inr (positive_data, negative_data) \<Rightarrow>
          if length transitions \<le> partition_idx then Inl IndexError
          else if length positive_data \<noteq> length (transitions ! partition_idx)
          then Inl AssertionError
          else Inr (positive_data, negative_data))"

subsection \<open>Which groundings become examples\<close>

text \<open>
  In the words of the spec: a grounding is a negative example when it is not the
  transition's own recorded grounding in the target partition, and the partition's
  add-effects and delete-effects grounded under it are not both subsets of the
  transition's effects.
\<close>

definition is_negative ::
  "var list \<Rightarrow> lifted_atom set \<Rightarrow> lifted_atom set \<Rightarrow> bool \<Rightarrow> transition \<Rightarrow> obj_to_var_sub
     \<Rightarrow> obj list \<Rightarrow> bool" where
  "is_negative variables add_effects delete_effects at_partition t obj_to_var grounding \<longleftrightarrow>
     \<not> (at_partition \<and> grounding = actual_grounding obj_to_var variables)
     \<and> \<not> (substitute (dict_zip variables grounding) ` add_effects \<subseteq> tr_add_effects t
          \<and> substitute (dict_zip variables grounding) ` delete_effects \<subseteq> tr_delete_effects t)"

definition positives_of ::
  "var list \<Rightarrow> bool \<Rightarrow> transition \<times> obj_to_var_sub \<Rightarrow> datum list" where
  "positives_of variables at_partition member =
     (case member of (t, obj_to_var) \<Rightarrow>
        map (\<lambda>grounding. (tr_state t, invert_sub obj_to_var, tr_option t))
          (filter (\<lambda>grounding. at_partition \<and> grounding = actual_grounding obj_to_var variables)
             (groundings variables t)))"

definition negatives_of ::
  "var list \<Rightarrow> lifted_atom set \<Rightarrow> lifted_atom set \<Rightarrow> bool \<Rightarrow> transition \<times> obj_to_var_sub
     \<Rightarrow> datum list" where
  "negatives_of variables add_effects delete_effects at_partition member =
     (case member of (t, obj_to_var) \<Rightarrow>
        map (\<lambda>grounding. (tr_state t, dict_zip variables grounding, tr_option t))
          (filter (is_negative variables add_effects delete_effects at_partition t obj_to_var)
             (groundings variables t)))"

definition all_positives ::
  "(transition \<times> obj_to_var_sub) list list \<Rightarrow> var list \<Rightarrow> nat \<Rightarrow> datum list" where
  "all_positives transitions variables partition_idx =
     concat (map (\<lambda>(idx, part_transitions).
                    concat (map (positives_of variables (idx = partition_idx)) part_transitions))
               (enumerate 0 transitions))"

definition all_negatives ::
  "(transition \<times> obj_to_var_sub) list list \<Rightarrow> var list \<Rightarrow> lifted_atom set \<Rightarrow> lifted_atom set
     \<Rightarrow> nat \<Rightarrow> datum list" where
  "all_negatives transitions variables add_effects delete_effects partition_idx =
     concat (map (\<lambda>(idx, part_transitions).
                    concat (map (negatives_of variables add_effects delete_effects
                                   (idx = partition_idx)) part_transitions))
               (enumerate 0 transitions))"

subsection \<open>The two partitions of the one-cup scenario\<close>

definition transitions_ex :: "(transition \<times> obj_to_var_sub) list list" where
  "transitions_ex = [[(transition1, [(cup0, var_cup0)])], [(transition2, [])]]"



section \<open>Partitioning transitions (\<^verbatim>\<open>operator_learning._partition_transitions\<close>)\<close>

text \<open>The decimal digits of a natural number, as \<^verbatim>\<open>f"{i}"\<close> prints them.\<close>

definition digit_char :: "nat \<Rightarrow> char" where
  "digit_char d = ''0123456789'' ! d"

function str_nat :: "nat \<Rightarrow> string" where
  "str_nat n = (if n < 10 then [digit_char n] else str_nat (n div 10) @ [digit_char (n mod 10)])"
  by pat_completeness auto
termination
  by (relation "measure id") auto

declare str_nat.simps [simp del]

text \<open>
  The four lists that \<^verbatim>\<open>_partition_transitions\<close> builds and returns: the option
  arguments, the add-effects, the delete-effects and the members of every partition.
\<close>

type_synonym partitioning =
  "var list list \<times> lifted_atom set list \<times> lifted_atom set list
     \<times> (transition \<times> obj_to_var_sub) list list"

text \<open>
  The loop \<^verbatim>\<open>for i in range(len(partitions))\<close>: the first partition that the
  transition unifies with, and the substitution; \<open>None\<close> is the \<^verbatim>\<open>else\<close> of the loop.
\<close>

fun first_unifying ::
  "(ground_atom set \<Rightarrow> lifted_atom set \<Rightarrow> bool \<times> obj_to_var_sub) \<Rightarrow> transition
     \<Rightarrow> (var list \<times> lifted_atom set \<times> lifted_atom set) list \<Rightarrow> nat
     \<Rightarrow> (nat \<times> obj_to_var_sub) option" where
  "first_unifying unify t [] i = None"
| "first_unifying unify t ((part_option_args, part_add_effects, part_delete_effects) # rest) i =
     (let (suc, sub) = unify' unify (tr_add_effects t) (tr_delete_effects t)
                         (opt_objects (tr_option t))
                         part_add_effects part_delete_effects part_option_args
      in if suc then Some (i, sub) else first_unifying unify t rest (Suc i))"

text \<open>The new group of lines 137 to 150: fresh variables for the sorted objects.\<close>

definition new_partition ::
  "transition \<Rightarrow> error + var list \<times> lifted_atom set \<times> lifted_atom set \<times> obj_to_var_sub" where
  "new_partition t =
     (let objects_lst = sorted_list_of_set (effect_objects t);
          variables = map (\<lambda>(i, ob). Variable (''?x'' @ str_nat i) (obj_type ob))
                        (enumerate 0 objects_lst);
          sub = zip objects_lst variables
      in if \<not> set (opt_objects (tr_option t)) \<subseteq> dom (map_of sub) then Inl KeyError
         else
           (case lift_atoms (map_of sub) (tr_add_effects t) of
              Inl e \<Rightarrow> Inl e
            | Inr lifted_add \<Rightarrow>
                (case lift_atoms (map_of sub) (tr_delete_effects t) of
                   Inl e \<Rightarrow> Inl e
                 | Inr lifted_delete \<Rightarrow>
                     Inr (map (\<lambda>ob. the (map_of sub ob)) (opt_objects (tr_option t)),
                          lifted_add, lifted_delete, sub))))"

definition partition_step ::
  "(ground_atom set \<Rightarrow> lifted_atom set \<Rightarrow> bool \<times> obj_to_var_sub) \<Rightarrow> transition
     \<Rightarrow> partitioning \<Rightarrow> error + partitioning" where
  "partition_step unify t parts =
     (case parts of (option_args, add_effects, delete_effects, partitions) \<Rightarrow>
        (case first_unifying unify t
                (take (length partitions) (zip option_args (zip add_effects delete_effects))) 0 of
           Some (i, sub) \<Rightarrow>
             Inr (option_args, add_effects, delete_effects,
                  partitions[i := partitions ! i @ [(t, sub)]])
         | None \<Rightarrow>
             (case new_partition t of
                Inl e \<Rightarrow> Inl e
              | Inr (args, lifted_add, lifted_delete, sub) \<Rightarrow>
                  Inr (option_args @ [args], add_effects @ [lifted_add],
                       delete_effects @ [lifted_delete], partitions @ [[(t, sub)]]))))"

text \<open>\<^verbatim>\<open>_partition_transitions\<close>, with its final assertion on the four lengths.\<close>

definition partition_transitions ::
  "(ground_atom set \<Rightarrow> lifted_atom set \<Rightarrow> bool \<times> obj_to_var_sub) \<Rightarrow> transition list
     \<Rightarrow> error + partitioning" where
  "partition_transitions unify transitions =
     (case fold_error (partition_step unify) transitions ([], [], [], []) of
        Inl e \<Rightarrow> Inl e
      | Inr (option_args, add_effects, delete_effects, partitions) \<Rightarrow>
          if length option_args = length add_effects
             \<and> length add_effects = length delete_effects
             \<and> length delete_effects = length partitions
          then Inr (option_args, add_effects, delete_effects, partitions)
          else Inl AssertionError)"

section \<open>Learning operators (\<^verbatim>\<open>operator_learning.learn_operators_for_option\<close>)\<close>

text \<open>The sampler of an operator is a learned sampler or the random sampler of its option.\<close>

datatype 'r sampler_fn = LearnedSampler "'r learned_sampler" | RandomSampler param_option

record 'r operator =
  op_name :: string
  op_parameters :: "var list"
  op_preconditions :: "lifted_atom set"
  op_add_effects :: "lifted_atom set"
  op_delete_effects :: "lifted_atom set"
  op_option :: param_option
  op_option_vars :: "var list"
  op_sampler :: "'r sampler_fn"

text \<open>A list comprehension whose body may raise.\<close>

fun map_error :: "('a \<Rightarrow> error + 'b) \<Rightarrow> 'a list \<Rightarrow> error + 'b list" where
  "map_error f [] = Inr []"
| "map_error f (x # xs) =
     (case f x of
        Inl e \<Rightarrow> Inl e
      | Inr y \<Rightarrow> (case map_error f xs of Inl e \<Rightarrow> Inl e | Inr ys \<Rightarrow> Inr (y # ys)))"

text \<open>
  The models of \<^verbatim>\<open>predicators.src.models\<close> are not among the source files: fitting a
  classifier to inputs and labels gives its \<^verbatim>\<open>classify\<close>, and fitting a regressor
  to inputs and outputs gives its \<^verbatim>\<open>predict_sample\<close>.
\<close>

record 'r models =
  fit_classifier :: "real list list \<Rightarrow> nat list \<Rightarrow> real list \<Rightarrow> bool"
  fit_regressor :: "real list list \<Rightarrow> real list list \<Rightarrow> real list \<Rightarrow> 'r \<Rightarrow> real list \<times> 'r"

text \<open>\<^verbatim>\<open>_learn_sampler\<close>: the examples, the two design matrices and the two fits.\<close>

definition learn_sampler ::
  "'r models \<Rightarrow> (pred \<Rightarrow> classifier) \<Rightarrow> (transition \<times> obj_to_var_sub) list list \<Rightarrow> var list
     \<Rightarrow> lifted_atom set \<Rightarrow> lifted_atom set \<Rightarrow> lifted_atom set \<Rightarrow> param_option \<Rightarrow> nat
     \<Rightarrow> error + 'r learned_sampler" where
  "learn_sampler models holds transitions variables preconditions add_effects delete_effects
       param_option partition_idx =
     (case create_sampler_data holds transitions variables preconditions add_effects
             delete_effects param_option partition_idx of
        Inl e \<Rightarrow> Inl e
      | Inr (positive_data, negative_data) \<Rightarrow>
          (case map_error
                  (\<lambda>(s, sub, opt).
                     case extend_features sub s variables [1] of
                       Inl e \<Rightarrow> Inl e
                     | Inr x \<Rightarrow> Inr (x @ opt_params opt))
                  (positive_data @ negative_data) of
             Inl e \<Rightarrow> Inl e
           | Inr X_classifier \<Rightarrow>
               (let y_classifier = map (\<lambda>_. 1) positive_data @ map (\<lambda>_. 0) negative_data;
                    classifier = fit_classifier models X_classifier y_classifier
                in case map_error (\<lambda>(s, sub, opt). extend_features sub s variables [1])
                          positive_data of
                     Inl e \<Rightarrow> Inl e
                   | Inr X_regressor \<Rightarrow>
                       (let Y_regressor = map (\<lambda>(s, sub, opt). opt_params opt) positive_data;
                            regressor = fit_regressor models X_regressor Y_regressor
                        in Inr \<lparr> ls_classify = classifier, ls_predict_sample = regressor,
                                 ls_variables = variables,
                                 ls_param_option = param_option \<rparr>))))"

text \<open>
  The body of the loop of \<^verbatim>\<open>learn_operators_for_option\<close> for partition \<open>i\<close> (lines 76
  to 100). \<^verbatim>\<open>CFG.min_data_for_operator\<close> is not set in the source files and is a
  parameter. The shape of the parameter space is \<^verbatim>\<open>(0,)\<close> when its box has no
  coordinate.
\<close>

definition learn_operator ::
  "'r models \<Rightarrow> (pred \<Rightarrow> classifier)
     \<Rightarrow> (ground_atom set \<Rightarrow> lifted_atom set \<Rightarrow> bool \<times> obj_to_var_sub) \<Rightarrow> int
     \<Rightarrow> param_option \<Rightarrow> bool \<Rightarrow> partitioning \<Rightarrow> nat \<times> (transition \<times> obj_to_var_sub) list
     \<Rightarrow> 'r operator list \<Rightarrow> error + 'r operator list" where
  "learn_operator models holds unify min_data_for_operator option do_sampler_learning parts
       indexed operators =
     (case parts of (option_vars, add_effects, delete_effects, partitioned_transitions) \<Rightarrow>
      case indexed of (i, part_transitions) \<Rightarrow>
        if int (length part_transitions) < min_data_for_operator then Inr operators
        else if add_effects ! i = {} \<and> delete_effects ! i = {} then Inr operators
        else
          (case learn_preconditions unify (option_vars ! i) (add_effects ! i)
                  (delete_effects ! i) part_transitions of
             Inl e \<Rightarrow> Inl e
           | Inr (variables, preconditions) \<Rightarrow>
               (let operator_name = po_name option @ str_nat i in
                case (if do_sampler_learning \<and> length (box_low (po_params_space option)) \<noteq> 0
                      then (case learn_sampler models holds partitioned_transitions variables
                                   preconditions (add_effects ! i) (delete_effects ! i) option i of
                              Inl e \<Rightarrow> Inl e
                            | Inr learned \<Rightarrow> Inr (LearnedSampler learned))
                      else Inr (RandomSampler option)) of
                  Inl e \<Rightarrow> Inl e
                | Inr sampler_fn \<Rightarrow>
                    Inr (operators @
                      [\<lparr> op_name = operator_name, op_parameters = variables,
                         op_preconditions = preconditions,
                         op_add_effects = add_effects ! i,
                         op_delete_effects = delete_effects ! i, op_option = option,
                         op_option_vars = option_vars ! i, op_sampler = sampler_fn \<rparr>]))))"

definition learn_operators_for_option ::
  "'r models \<Rightarrow> (pred \<Rightarrow> classifier)
     \<Rightarrow> (ground_atom set \<Rightarrow> lifted_atom set \<Rightarrow> bool \<times> obj_to_var_sub) \<Rightarrow> int
     \<Rightarrow> param_option \<Rightarrow> transition list \<Rightarrow> bool \<Rightarrow> error + 'r operator list" where
  "learn_operators_for_option models holds unify min_data_for_operator option transitions
       do_sampler_learning =
     (case partition_transitions unify transitions of
        Inl e \<Rightarrow> Inl e
      | Inr parts \<Rightarrow>
          fold_error
            (learn_operator models holds unify min_data_for_operator option
               do_sampler_learning parts)
            (enumerate 0 (snd (snd (snd parts)))) [])"

subsection \<open>The operators of the one-cup scenario\<close>

definition x0_cup :: var where
  "x0_cup = Variable ''?x0'' cup_type"

definition no_models :: "unit models" where
  "no_models = \<lparr> fit_classifier = (\<lambda>X y x. True), fit_regressor = (\<lambda>X Y x rng. ([], rng)) \<rparr>"

section \<open>Predicate invention (\<^verbatim>\<open>approaches.iterative_invention_approach\<close>)\<close>

text \<open>
  Modelled from the spec: \<^verbatim>\<open>utils.get_all_groundings\<close> is not among the source files.
  The spec (section 4.5, step 2): ``for each valid grounding (substitution) of the
  operator's signature variables over that object-set''. Every grounding comes with its
  substitution, the sorted variables of the atoms bound to a combination of the objects.
\<close>

definition get_all_groundings ::
  "lifted_atom set \<Rightarrow> obj set \<Rightarrow> (ground_atom set \<times> (var \<rightharpoonup> obj)) list" where
  "get_all_groundings atoms objects =
     (let variables = sorted_list_of_set (\<Union>a \<in> atoms. set (atom_args a))
      in map (\<lambda>choice. (substitute (dict_zip variables choice) ` atoms,
                          dict_zip variables choice))
           (get_object_combinations (sorted_list_of_set objects) (map var_type variables)
              False))"

text \<open>
  Modelled from the spec: \<^verbatim>\<open>utils.powerset\<close> is not among the source files. The spec
  (section 4.5, steps 2 and 4): ``every non-empty subset of the operator's parameters'',
  ``smallest to largest arity''.
\<close>

definition powerset_nonempty :: "'a list \<Rightarrow> 'a list list" where
  "powerset_nonempty xs =
     concat (map (\<lambda>n. filter (\<lambda>ys. length ys = n) (subseqs xs)) [1..<Suc (length xs)])"

text \<open>
  Modelled from the spec: \<^verbatim>\<open>State.vec\<close> is not among the source files. The spec
  (section 3): a state ``supports vectorizing an arbitrary ordered tuple of objects by
  concatenating their feature vectors''.
\<close>

fun state_vec :: "state \<Rightarrow> obj list \<Rightarrow> error + real list" where
  "state_vec s [] = Inr []"
| "state_vec s (ob # obs) =
     (case s ob of
        None \<Rightarrow> Inl KeyError
      | Some feats \<Rightarrow>
          (case state_vec s obs of Inl e \<Rightarrow> Inl e | Inr v \<Rightarrow> Inr (feats @ v)))"

text \<open>
  What the approach takes from code that is not among the source files: the unifier of
  \<^verbatim>\<open>utils\<close>; fitting an \<^verbatim>\<open>MLPClassifier\<close> to inputs and labels, which gives its
  \<^verbatim>\<open>classify\<close>; the classifier that \<^verbatim>\<open>LearnedPredicateClassifier\<close> makes of a model;
  \<^verbatim>\<open>Predicate.get_negation\<close>; the permutation of the random generator, whose state is
  passed in and returned; the constants \<^verbatim>\<open>CFG.iterative_invention_accept_score\<close> and
  \<^verbatim>\<open>CFG.min_data_for_operator\<close>; and the models and classifiers that
  \<open>learn_operators_for_option\<close> reads only when it learns samplers, which the invention
  loop never asks for.
\<close>

record ('g, 'r) collaborators =
  co_unify :: "ground_atom set \<Rightarrow> lifted_atom set \<Rightarrow> bool \<times> obj_to_var_sub"
  co_fit :: "real list list \<Rightarrow> nat list \<Rightarrow> real list \<Rightarrow> bool"
  co_classifier :: "(real list \<Rightarrow> bool) \<Rightarrow> classifier"
  co_get_negation :: "pred \<Rightarrow> pred"
  co_permutation :: "'g \<Rightarrow> nat \<Rightarrow> nat list \<times> 'g"
  co_accept_score :: real
  co_min_data_for_operator :: int
  co_models :: "'r models"
  co_holds :: "pred \<Rightarrow> classifier"

text \<open>
  \<^verbatim>\<open>data\<close>: for every subset of the parameters, in insertion order, the positive and
  the negative vectors.
\<close>

type_synonym invention_data = "(var list \<times> real list list \<times> real list list) list"

text \<open>The loop \<^verbatim>\<open>for params, params_data in data.items()\<close> of lines 155 to 162.\<close>

definition add_vectors ::
  "state \<Rightarrow> (var \<rightharpoonup> obj) \<Rightarrow> bool \<Rightarrow> invention_data \<Rightarrow> error + invention_data" where
  "add_vectors s sub effects_hold data =
     map_error
       (\<lambda>(params, pos, neg).
          if \<not> set params \<subseteq> dom sub then Inl KeyError
          else
            (case state_vec s (map (\<lambda>v. the (sub v)) params) of
               Inl e \<Rightarrow> Inl e
             | Inr vec \<Rightarrow>
                 Inr (if effects_hold then (params, pos @ [vec], neg)
                      else (params, pos, neg @ [vec]))))
       data"

text \<open>The body of the innermost loop (lines 131 to 162) for a grounding and a transition.\<close>

definition invention_example ::
  "'r operator \<Rightarrow> ground_atom set \<times> (var \<rightharpoonup> obj) \<Rightarrow> transition \<Rightarrow> invention_data
     \<Rightarrow> error + invention_data" where
  "invention_example operator grounded t data =
     (case grounded of (grounding, sub) \<Rightarrow>
        (let opt_arg_pred = Pred ''OPT-ARGS'' (po_types (op_option operator));
             operator_add_effs = wrap_atom_predicates ''ADD-'' (op_add_effects operator);
             operator_del_effs = wrap_atom_predicates ''DEL-'' (op_delete_effects operator);
             ground_opt_atom = Atom opt_arg_pred (opt_objects (tr_option t));
             trans_atoms = wrap_atom_predicates ''PRE-'' (tr_atoms t);
             trans_add_effs = wrap_atom_predicates ''ADD-'' (tr_add_effects t);
             trans_del_effs = wrap_atom_predicates ''DEL-'' (tr_delete_effects t);
             pre_opt_grounding =
               {a \<in> grounding. pred_name (atom_pred a) = ''OPT-ARGS''
                                \<or> prefix ''PRE-'' (pred_name (atom_pred a))}
         in if \<not> pre_opt_grounding \<subseteq> trans_atoms \<union> {ground_opt_atom} then Inr data
            else
              (case ground_atoms sub operator_add_effs of
                 Inl e \<Rightarrow> Inl e
               | Inr grounding_add_effects \<Rightarrow>
                   (case ground_atoms sub operator_del_effs of
                      Inl e \<Rightarrow> Inl e
                    | Inr grounding_delete_effects \<Rightarrow>
                        add_vectors (tr_state t) sub
                          (trans_add_effs = grounding_add_effects
                             \<and> trans_del_effs = grounding_delete_effects)
                          data))))"

text \<open>\<^verbatim>\<open>lifteds\<close>, the signature of the operator (lines 102 to 112).\<close>

definition operator_lifteds :: "'r operator \<Rightarrow> lifted_atom set" where
  "operator_lifteds operator =
     wrap_atom_predicates ''PRE-'' (op_preconditions operator)
       \<union> wrap_atom_predicates ''ADD-'' (op_add_effects operator)
       \<union> wrap_atom_predicates ''DEL-'' (op_delete_effects operator)
       \<union> {Atom (Pred ''OPT-ARGS'' (po_types (op_option operator))) (op_option_vars operator)}"

text \<open>\<^verbatim>\<open>transitions_by_objects\<close> (lines 114 to 119).\<close>

definition group_by_objects ::
  "'r operator \<Rightarrow> transition list \<Rightarrow> error + (obj set \<times> transition list) list" where
  "group_by_objects operator transitions =
     fold_error
       (\<lambda>t groups.
          if op_option operator \<noteq> opt_parent (tr_option t) then Inl AssertionError
          else Inr (append_transition groups (dom (tr_state t)) t))
       transitions []"

text \<open>The three nested loops of lines 127 to 162, on \<^verbatim>\<open>data\<close> as line 126 leaves it.\<close>

definition invention_data_of ::
  "'r operator \<Rightarrow> (obj set \<times> transition list) list \<Rightarrow> error + invention_data" where
  "invention_data_of operator transitions_by_objects =
     fold_error
       (\<lambda>(objects, group).
          fold_error
            (\<lambda>grounded. fold_error (invention_example operator grounded) group)
            (get_all_groundings (operator_lifteds operator) objects))
       transitions_by_objects
       (map (\<lambda>params. (params, [], [])) (powerset_nonempty (op_parameters operator)))"

text \<open>A predicate with its classifier.\<close>

type_synonym candidate = "pred \<times> classifier"

text \<open>
  The share of the inputs that the model labels as \<open>Y\<close> does (line 183), as an exact
  number; there is at least one input, by the assertion of line 164.
\<close>

definition fit_score :: "(real list \<Rightarrow> bool) \<Rightarrow> real list list \<Rightarrow> nat list \<Rightarrow> real" where
  "fit_score model X Y =
     real (length (filter (\<lambda>(x, y). (if model x then 1 else 0) = y) (zip X Y)))
       / real (length Y)"

text \<open>
  The body of the loop of lines 177 to 200; \<open>best\<close> is \<open>None\<close> while
  \<^verbatim>\<open>best_score\<close> is minus infinity.
\<close>

definition consider_params ::
  "('g, 'r) collaborators \<Rightarrow> nat \<Rightarrow> var list \<times> real list list \<times> real list list
     \<Rightarrow> (candidate \<times> real) option \<Rightarrow> (candidate \<times> real) option" where
  "consider_params env num_inventions entry best =
     (case entry of (params, pos, neg) \<Rightarrow>
        (let X = pos @ neg;
             Y = map (\<lambda>_. 1) pos @ map (\<lambda>_. 0) neg;
             model = co_fit env X Y
         in if fit_score model X Y < co_accept_score env then best
            else
              (let score = fit_score model X Y - 0.1 * real (length params);
                   types = map var_type params;
                   pred = Pred (''InventedPredicate-'' @ str_nat num_inventions) types
               in if (case best of None \<Rightarrow> True | Some (_, best_score) \<Rightarrow> best_score < score)
                  then Some ((pred, co_classifier env model), score)
                  else best)))"

text \<open>\<^verbatim>\<open>_invent_for_operator\<close>.\<close>

definition invent_for_operator ::
  "('g, 'r) collaborators \<Rightarrow> nat \<Rightarrow> 'r operator \<Rightarrow> transition list
     \<Rightarrow> error + candidate option" where
  "invent_for_operator env num_inventions operator transitions =
     (if op_parameters operator = [] then Inr None
      else
        (case group_by_objects operator transitions of
           Inl e \<Rightarrow> Inl e
         | Inr transitions_by_objects \<Rightarrow>
             (case invention_data_of operator transitions_by_objects of
                Inl e \<Rightarrow> Inl e
              | Inr data \<Rightarrow>
                  (case map_of data (op_parameters operator) of
                     None \<Rightarrow> Inl KeyError
                   | Some (pos, neg) \<Rightarrow>
                       if pos = [] then Inl AssertionError
                       else if neg = [] then Inr None
                       else Inr (map_option fst
                                   (fold (consider_params env num_inventions) data None))))))"

text \<open>
  \<^verbatim>\<open>_invent_for_some_operator\<close>: the inner loop over a permutation of the operators,
  the outer loop over a permutation of the options, and the function itself.
\<close>

fun invent_for_operators ::
  "('g, 'r) collaborators \<Rightarrow> nat \<Rightarrow> 'r operator list \<Rightarrow> transition list \<Rightarrow> nat list
     \<Rightarrow> error + candidate option" where
  "invent_for_operators env num_inventions operators transitions [] = Inr None"
| "invent_for_operators env num_inventions operators transitions (idx2 # rest) =
     (if length operators \<le> idx2 then Inl IndexError
      else
        (case invent_for_operator env num_inventions (operators ! idx2) transitions of
           Inl e \<Rightarrow> Inl e
         | Inr (Some new_predicate) \<Rightarrow> Inr (Some new_predicate)
         | Inr None \<Rightarrow> invent_for_operators env num_inventions operators transitions rest))"

fun invent_for_options ::
  "('g, 'r) collaborators \<Rightarrow> nat \<Rightarrow> transitions_by_option \<Rightarrow> nat list \<Rightarrow> 'g
     \<Rightarrow> error + candidate option \<times> 'g" where
  "invent_for_options env num_inventions tbo [] rng = Inr (None, rng)"
| "invent_for_options env num_inventions tbo (idx1 # rest) rng =
     (if length tbo \<le> idx1 then Inl IndexError
      else
        (case tbo ! idx1 of (param_option, option_transitions) \<Rightarrow>
           (case learn_operators_for_option (co_models env) (co_holds env) (co_unify env)
                   (co_min_data_for_operator env) param_option option_transitions False of
              Inl e \<Rightarrow> Inl e
            | Inr operators \<Rightarrow>
                (case co_permutation env rng (length operators) of (perm, rng') \<Rightarrow>
                   (case invent_for_operators env num_inventions operators
                           option_transitions perm of
                      Inl e \<Rightarrow> Inl e
                    | Inr (Some new_predicate) \<Rightarrow> Inr (Some new_predicate, rng')
                    | Inr None \<Rightarrow> invent_for_options env num_inventions tbo rest rng')))))"

definition invent_for_some_operator ::
  "('g, 'r) collaborators \<Rightarrow> nat \<Rightarrow> transitions_by_option \<Rightarrow> 'g
     \<Rightarrow> error + candidate option \<times> 'g" where
  "invent_for_some_operator env num_inventions tbo rng =
     (case co_permutation env rng (length tbo) of (perm, rng') \<Rightarrow>
        invent_for_options env num_inventions tbo perm rng')"

text \<open>
  The fields of \<^verbatim>\<open>IterativeInventionApproach\<close> that the loop reads and writes. The
  learned predicates are kept by identity: the loop itself never reads their classifiers.
\<close>

record 'g approach =
  learned_predicates :: "pred set"
  num_inventions :: nat
  approach_rng :: 'g

text \<open>
  The classifiers of the new predicate and of its negation (``a derived predicate whose
  classifier inverts the original'', spec section 3).
\<close>

definition new_holds :: "pred \<Rightarrow> classifier \<Rightarrow> pred \<Rightarrow> classifier" where
  "new_holds new_predicate c p = (if p = new_predicate then c else (\<lambda>s objs. \<not> c s objs))"

text \<open>
  One iteration of the \<^verbatim>\<open>while True\<close> loop of \<^verbatim>\<open>learn_from_offline_dataset\<close> (lines 42
  to 66); the flag says whether the loop goes on.
\<close>

definition invention_iteration ::
  "('g, 'r) collaborators \<Rightarrow> 'g approach \<times> transitions_by_option
     \<Rightarrow> error + ('g approach \<times> transitions_by_option) \<times> bool" where
  "invention_iteration env st =
     (case st of (self, tbo) \<Rightarrow>
        (case invent_for_some_operator env (num_inventions self) tbo (approach_rng self) of
           Inl e \<Rightarrow> Inl e
         | Inr (None, rng') \<Rightarrow> Inr ((self\<lparr>approach_rng := rng'\<rparr>, tbo), False)
         | Inr (Some (new_predicate, c), rng') \<Rightarrow>
             (let neg_new_predicate = co_get_negation env new_predicate
              in Inr ((self\<lparr>learned_predicates :=
                              insert neg_new_predicate
                                (insert new_predicate (learned_predicates self)),
                            num_inventions := num_inventions self + 1,
                            approach_rng := rng'\<rparr>,
                       map (\<lambda>(param_option, transitions).
                              (param_option,
                               map (reabstract (new_holds new_predicate c) new_predicate
                                      neg_new_predicate) transitions))
                         tbo),
                      True))))"

text \<open>
  The loop, with fuel: \<open>None\<close> means that the loop has not returned within \<open>fuel\<close>
  iterations.
\<close>

fun invention_loop ::
  "('g, 'r) collaborators \<Rightarrow> nat \<Rightarrow> 'g approach \<times> transitions_by_option
     \<Rightarrow> (error + 'g approach \<times> transitions_by_option) option" where
  "invention_loop env 0 st = None"
| "invention_loop env (Suc fuel) st =
     (case invention_iteration env st of
        Inl e \<Rightarrow> Some (Inl e)
      | Inr (st', False) \<Rightarrow> Some (Inr st')
      | Inr (st', True) \<Rightarrow> invention_loop env fuel st')"

section \<open>A dataset on which the invention loop runs forever\<close>

text \<open>
  The one-cup scenario with both transitions in one dataset: from the same state, the
  option once adds \<open>Pred0(cup0)\<close> and once does nothing. The collaborators: the
  one-object unifier, a fit that returns the classifier that accepts everything, negation
  by the prefix \<^verbatim>\<open>NOT-\<close>, the identity permutation, and an accept score given as a
  parameter. After \<open>k\<close> inventions the atoms of every state hold the \<open>k\<close> invented
  predicates, and the learned operator has them as preconditions.
\<close>

definition invented :: "nat \<Rightarrow> pred" where
  "invented k = Pred (''InventedPredicate-'' @ str_nat k) [cup_type]"

definition negation :: "pred \<Rightarrow> pred" where
  "negation p = Pred (''NOT-'' @ pred_name p) (pred_types p)"

definition vec_classifier :: "(real list \<Rightarrow> bool) \<Rightarrow> classifier" where
  "vec_classifier model s objs =
     model (concat (map (\<lambda>ob. case s ob of None \<Rightarrow> [] | Some feats \<Rightarrow> feats) objs))"

definition cup_env :: "real \<Rightarrow> (unit, unit) collaborators" where
  "cup_env accept_score =
     \<lparr> co_unify = one_object_unify cup0,
       co_fit = (\<lambda>X Y x. True),
       co_classifier = vec_classifier,
       co_get_negation = negation,
       co_permutation = (\<lambda>rng n. ([0..<n], rng)),
       co_accept_score = accept_score,
       co_min_data_for_operator = 1,
       co_models = no_models,
       co_holds = pred0_holds \<rparr>"

definition invented_atoms :: "nat \<Rightarrow> ground_atom set" where
  "invented_atoms k = (\<lambda>j. Atom (invented j) [cup0]) ` {..<k}"

definition invented_preconditions :: "nat \<Rightarrow> lifted_atom set" where
  "invented_preconditions k = (\<lambda>j. Atom (invented j) [x0_cup]) ` {..<k}"

definition adding :: "nat \<Rightarrow> transition" where
  "adding k =
     \<lparr> tr_state = state04, tr_next_state = state09, tr_atoms = invented_atoms k,
       tr_option = dummy_option, tr_next_atoms = insert (Atom pred0 [cup0]) (invented_atoms k),
       tr_add_effects = {Atom pred0 [cup0]}, tr_delete_effects = {} \<rparr>"

definition idle :: "nat \<Rightarrow> transition" where
  "idle k =
     \<lparr> tr_state = state04, tr_next_state = state04, tr_atoms = invented_atoms k,
       tr_option = dummy_option, tr_next_atoms = invented_atoms k,
       tr_add_effects = {}, tr_delete_effects = {} \<rparr>"

definition family_operator :: "nat \<Rightarrow> unit operator" where
  "family_operator k =
     \<lparr> op_name = ''dummy0'', op_parameters = [x0_cup],
       op_preconditions = invented_preconditions k,
       op_add_effects = {Atom pred0 [x0_cup]}, op_delete_effects = {},
       op_option = dummy, op_option_vars = [], op_sampler = RandomSampler dummy \<rparr>"

definition pre_wrapped :: "nat \<Rightarrow> 'a \<Rightarrow> 'a atom set" where
  "pre_wrapped k x =
     (\<lambda>j. Atom (Pred (''PRE-'' @ pred_name (invented j)) [cup_type]) [x]) ` {..<k}"

definition opt_args_atom :: "'a atom" where
  "opt_args_atom = Atom (Pred ''OPT-ARGS'' []) []"

definition add_pred0 :: "'a \<Rightarrow> 'a atom" where
  "add_pred0 x = Atom (Pred ''ADD-Pred0'' [cup_type]) [x]"

definition family_grounding :: "nat \<Rightarrow> ground_atom set" where
  "family_grounding k = pre_wrapped k cup0 \<union> {add_pred0 cup0, opt_args_atom}"

fun learned_family :: "nat \<Rightarrow> pred set" where
  "learned_family 0 = {}"
| "learned_family (Suc k) =
     insert (negation (invented k)) (insert (invented k) (learned_family k))"

definition family_state :: "nat \<Rightarrow> unit approach \<times> transitions_by_option" where
  "family_state k =
     (\<lparr> learned_predicates = learned_family k, num_inventions = k, approach_rng = () \<rparr>,
      [(dummy, [adding k, idle k])])"

section \<open>The iterations of the invention loop\<close>

text \<open>The name that line 194 gives to a predicate invented when the counter is \<open>n\<close>.\<close>

definition invented_name :: "nat \<Rightarrow> string" where
  "invented_name n = ''InventedPredicate-'' @ str_nat n"

definition fresh_approach :: "unit approach" where
  "fresh_approach = \<lparr> learned_predicates = {}, num_inventions = 0, approach_rng = () \<rparr>"

chapter \<open>Properties\<close>

section \<open>The effects of a transition\<close>

lemma make_transition_consistent:
  "effects_consistent (make_transition holds predicates s s' opt)"
  by (auto simp: effects_consistent_def make_transition_def Let_def)

lemma reabstract_consistent:
  "effects_consistent (reabstract holds p np t)"
  by (auto simp: effects_consistent_def reabstract_def Let_def)

lemma all_transitions_append:
  "all_transitions (append_transition tbo k t) = insert t (all_transitions tbo)"
  by (induction tbo k t rule: append_transition.induct) (auto simp: all_transitions_def)

lemma trajectory_transitions_consistent:
  "\<forall>t \<in> all_transitions tbo. effects_consistent t \<Longrightarrow>
   \<forall>t \<in> all_transitions (trajectory_transitions holds predicates ss opts tbo).
      effects_consistent t"
  by (induction holds predicates ss opts tbo rule: trajectory_transitions.induct)
     (simp_all add: all_transitions_append make_transition_consistent)

lemma generate_transitions_from_consistent:
  "generate_transitions_from a2o holds dataset predicates tbo = Inr res \<Longrightarrow>
   \<forall>t \<in> all_transitions tbo. effects_consistent t \<Longrightarrow>
   \<forall>t \<in> all_transitions res. effects_consistent t"
proof (induction dataset arbitrary: tbo)
  case Nil
  then show ?case by simp
next
  case (Cons act_traj dataset)
  from Cons.prems(1) obtain states options where
    a: "a2o act_traj = Inr (states, options)" and
    r: "generate_transitions_from a2o holds dataset predicates
          (trajectory_transitions holds predicates states options tbo) = Inr res"
    by (auto split: sum.splits if_splits)
  show ?case
    by (rule Cons.IH [OF r]) (rule trajectory_transitions_consistent [OF Cons.prems(2)])
qed

text \<open>
  C1. Every transition produced by \<open>generate_transitions\<close>, and every transition
  after the invention loop has re-abstracted it with a new predicate and its negation,
  has disjoint add-effects and delete-effects, and its post-state atoms are its
  pre-state atoms minus the delete-effects plus the add-effects.
\<close>

theorem effects_disjoint_and_exact:
  "(generate_transitions a2o holds dataset predicates = Inr tbo \<longrightarrow>
      (\<forall>t \<in> all_transitions tbo.
         tr_add_effects t \<inter> tr_delete_effects t = {}
         \<and> tr_next_atoms t = (tr_atoms t - tr_delete_effects t) \<union> tr_add_effects t))
   \<and> tr_add_effects (reabstract holds' new_predicate neg_new_predicate t0)
       \<inter> tr_delete_effects (reabstract holds' new_predicate neg_new_predicate t0) = {}
   \<and> tr_next_atoms (reabstract holds' new_predicate neg_new_predicate t0)
       = (tr_atoms (reabstract holds' new_predicate neg_new_predicate t0)
            - tr_delete_effects (reabstract holds' new_predicate neg_new_predicate t0))
         \<union> tr_add_effects (reabstract holds' new_predicate neg_new_predicate t0)"
proof -
  have "generate_transitions a2o holds dataset predicates = Inr tbo \<Longrightarrow>
        \<forall>t \<in> all_transitions tbo. effects_consistent t"
    unfolding generate_transitions_def
    by (erule generate_transitions_from_consistent) (simp add: all_transitions_def)
  moreover have "effects_consistent (reabstract holds' new_predicate neg_new_predicate t0)"
    by (rule reabstract_consistent)
  ultimately show ?thesis
    unfolding effects_consistent_def by blast
qed

section \<open>The one-cup scenario of \<^verbatim>\<open>tests/test_sampler_learning.py\<close>\<close>

lemma abstract_Union:
  "abstract holds s preds =
     (\<Union>p\<in>preds. Atom p `
        {c \<in> set (get_object_combinations (state_objects s) (pred_types p) False). holds p s c})"
  by (auto simp: abstract_def)

lemma abstract_state04: "abstract pred0_holds state04 {pred0} = {}"
  by (simp add: abstract_Union state_objects_def state04_def get_object_combinations_def
      pred0_def pred0_holds_def cup0_def)

lemma abstract_state09: "abstract pred0_holds state09 {pred0} = {Atom pred0 [cup0]}"
  by (auto simp add: abstract_Union state_objects_def state09_def get_object_combinations_def
      pred0_def pred0_holds_def cup0_def)

lemma transition1_eq:
  "transition1 = \<lparr> tr_state = state04, tr_next_state = state09, tr_atoms = {},
     tr_option = dummy_option, tr_next_atoms = {Atom pred0 [cup0]},
     tr_add_effects = {Atom pred0 [cup0]}, tr_delete_effects = {} \<rparr>"
  by (simp add: transition1_def make_transition_def abstract_state04 abstract_state09 Let_def)

lemma transition2_eq:
  "transition2 = \<lparr> tr_state = state04, tr_next_state = state04, tr_atoms = {},
     tr_option = dummy_option, tr_next_atoms = {},
     tr_add_effects = {}, tr_delete_effects = {} \<rparr>"
  by (simp add: transition2_def make_transition_def abstract_state04 Let_def)

theorem effects_disjoint_and_exact_witness:
  "generate_transitions Inr pred0_holds [([state04, state09], [dummy_option])] {pred0}
     = Inr [(dummy, [transition1])]
   \<and> transition1 \<in> all_transitions [(dummy, [transition1])]
   \<and> tr_add_effects transition1 = {Atom pred0 [cup0]}
   \<and> tr_add_effects transition1 \<inter> tr_delete_effects transition1 = {}
   \<and> tr_next_atoms transition1
       = (tr_atoms transition1 - tr_delete_effects transition1) \<union> tr_add_effects transition1"
proof -
  have g: "generate_transitions Inr pred0_holds [([state04, state09], [dummy_option])] {pred0}
     = Inr [(dummy, [transition1])]"
    by (simp add: generate_transitions_def transition1_def dummy_option_def)
  have m: "transition1 \<in> all_transitions [(dummy, [transition1])]"
    by (simp add: all_transitions_def)
  from effects_disjoint_and_exact
    [of Inr pred0_holds "[([state04, state09], [dummy_option])]" "{pred0}"
        "[(dummy, [transition1])]" pred0_holds pred0 pred0 transition1] g m
  have "tr_add_effects transition1 \<inter> tr_delete_effects transition1 = {}
    \<and> tr_next_atoms transition1
       = (tr_atoms transition1 - tr_delete_effects transition1) \<union> tr_add_effects transition1"
    by blast
  with g m show ?thesis
    by (simp add: transition1_eq)
qed

section \<open>The learned sampler (\<^verbatim>\<open>operator_learning._LearnedSampler\<close>)\<close>

subsection \<open>What the sampler returns\<close>

declare rejection_loop.simps [simp del]

lemma rejection_loop_find:
  "num_rejections \<le> max_tries + 1 \<Longrightarrow>
   (let cands = draw_candidates (ls_predict_sample S) x (nat (max_tries + 1 - num_rejections)) rng;
        r = rejection_loop S max_tries x num_rejections params rng
    in case find (accepts S x) cands of
         Some p \<Rightarrow> fst r \<and> fst (snd r) = Some p
       | None \<Rightarrow> \<not> fst r \<and> fst (snd r) = (if cands = [] then params else Some (last cands)))"
proof (induction S max_tries x num_rejections params rng rule: rejection_loop.induct)
  case (1 S max_tries x num_rejections params rng)
  show ?case
  proof (cases "num_rejections \<le> max_tries")
    case False
    with "1.prems" have "nat (max_tries + 1 - num_rejections) = 0" by simp
    with False show ?thesis
      by (simp add: rejection_loop.simps [of S max_tries x num_rejections])
  next
    case True
    obtain p' rng' where d: "ls_predict_sample S x rng = (p', rng')" by force
    from True have n: "nat (max_tries + 1 - num_rejections) = Suc (nat (max_tries + 1 - (num_rejections + 1)))"
      by simp
    show ?thesis
    proof (cases "accepts S x p'")
      case a: True
      then show ?thesis using True d n
        by (simp add: rejection_loop.simps [of S max_tries x num_rejections] del: nat_diff_distrib)
    next
      case a: False
      have ih: "(let cands = draw_candidates (ls_predict_sample S) x (nat (max_tries + 1 - (num_rejections + 1))) rng';
        r = rejection_loop S max_tries x (num_rejections + 1) (Some p') rng'
    in case find (accepts S x) cands of
         Some p \<Rightarrow> fst r \<and> fst (snd r) = Some p
       | None \<Rightarrow> \<not> fst r \<and> fst (snd r) = (if cands = [] then Some p' else Some (last cands)))"
        using "1.IH" [OF True d [symmetric] refl a] True by simp
      show ?thesis
        using ih a d True unfolding n
        by (auto simp add: rejection_loop.simps [of S max_tries x num_rejections] Let_def split: option.splits)
    qed
  qed
qed

lemma draw_candidates_length: "length (draw_candidates predict x n rng) = n"
  by (induction n arbitrary: rng) (auto split: prod.splits)

lemma sampler_returns:
  assumes "extend_features (dict_zip (ls_variables S) objects) s (ls_variables S) [1] = Inr x"
    and "0 \<le> max_tries"
  shows "\<exists>rng' g'. sampler S max_tries space_sample s rng g objects =
     Inr (let cands = draw_candidates (ls_predict_sample S) x (nat max_tries + 1) rng in
            case find (\<lambda>params. box_contains (po_params_space (ls_param_option S)) params
                          \<and> ls_classify S (x @ params)) cands of
              Some params \<Rightarrow> params
            | None \<Rightarrow>
                if box_contains (po_params_space (ls_param_option S)) (last cands)
                then last cands
                else fst (space_sample (po_params_space (ls_param_option S)) g),
          rng', g')"
proof -
  define cands where "cands = draw_candidates (ls_predict_sample S) x (nat max_tries + 1) rng"
  let ?r = "rejection_loop S max_tries x 0 None rng"
  have n: "nat (max_tries + 1 - 0) = nat max_tries + 1" using assms(2) by simp
  have ne: "cands \<noteq> []"
    using draw_candidates_length [of "ls_predict_sample S" x "nat max_tries + 1" rng]
    unfolding cands_def by auto
  from rejection_loop_find [of 0 max_tries S x rng None] assms(2)
  have f: "case find (accepts S x) cands of
         Some p \<Rightarrow> fst ?r \<and> fst (snd ?r) = Some p
       | None \<Rightarrow> \<not> fst ?r \<and> fst (snd ?r) = Some (last cands)"
    unfolding n Let_def cands_def [symmetric] using ne by (auto split: option.splits)
  have acc: "(\<lambda>params. box_contains (po_params_space (ls_param_option S)) params
                      \<and> ls_classify S (x @ params)) = accepts S x"
    by (auto simp: accepts_def fun_eq_iff)
  obtain b po r' where r: "?r = (b, po, r')" by (cases ?r) auto
  show ?thesis
  proof (cases "find (accepts S x) cands")
    case None
    with f r have "b = False" "po = Some (last cands)" by auto
    with r have r2: "?r = (False, Some (last cands), r')" by simp
    show ?thesis
      unfolding acc sampler_def cands_def [symmetric]
      by (simp add: assms(1) r2 None Let_def split: prod.splits)
  next
    case (Some p)
    with f r have "b = True" "po = Some p" by auto
    with r have r2: "?r = (True, Some p, r')" by simp
    show ?thesis
      unfolding acc sampler_def cands_def [symmetric]
      by (simp add: assms(1) r2 Some Let_def)
  qed
qed

lemma sampler_Inr_defined:
  assumes "sampler S max_tries space_sample s rng g objects = Inr res"
  shows "0 \<le> max_tries
    \<and> (\<exists>x. extend_features (dict_zip (ls_variables S) objects) s (ls_variables S) [1] = Inr x)"
proof -
  from assms obtain x where
    x: "extend_features (dict_zip (ls_variables S) objects) s (ls_variables S) [1] = Inr x"
    by (auto simp: sampler_def split: sum.splits)
  have "0 \<le> max_tries"
  proof (rule ccontr)
    assume "\<not> 0 \<le> max_tries"
    then have "rejection_loop S max_tries x 0 None rng = (False, None, rng)"
      by (simp add: rejection_loop.simps [of S max_tries x 0])
    with assms x show False by (simp add: sampler_def)
  qed
  with x show ?thesis by blast
qed

subsection \<open>Example samplers\<close>

lemma example_sampler_variables: "ls_variables example_sampler = [var_cup0]"
  by (simp add: example_sampler_def)

lemma far_sampler_variables: "ls_variables far_sampler = [var_cup0]"
  by (simp add: far_sampler_def)

lemma cup_features:
  "extend_features (dict_zip [var_cup0] [cup0]) state04 [var_cup0] [1] = Inr [1, 0.4]"
  by (simp add: dict_zip_def state04_def)

text \<open>
  C6. Given the feature vector \<open>x\<close> (the bias, then the state features of the bound
  objects), the sampler returns the first of the \<open>max_tries + 1\<close> drawn candidates that
  lies in the option's parameter space and that the classifier labels positive on
  \<open>x\<close> followed by the candidate. When none of them is accepted, it returns the last
  drawn candidate if that one lies in the parameter space, and otherwise a sample of the
  parameter space.
\<close>

theorem learned_sampler_rejection_sampling:
  assumes "extend_features (dict_zip (ls_variables S) objects) s (ls_variables S) [1] = Inr x"
    and "0 \<le> max_tries"
  shows "\<exists>rng' g'. sampler S max_tries space_sample s rng g objects =
     Inr (let cands = draw_candidates (ls_predict_sample S) x (nat max_tries + 1) rng in
            case find (\<lambda>params. box_contains (po_params_space (ls_param_option S)) params
                          \<and> ls_classify S (x @ params)) cands of
              Some params \<Rightarrow> params
            | None \<Rightarrow>
                if box_contains (po_params_space (ls_param_option S)) (last cands)
                then last cands
                else fst (space_sample (po_params_space (ls_param_option S)) g),
          rng', g')"
  using assms by (rule sampler_returns)

theorem learned_sampler_rejection_sampling_witness:
  "extend_features (dict_zip (ls_variables example_sampler) [cup0]) state04
      (ls_variables example_sampler) [1] = Inr [1, 0.4]
   \<and> (\<exists>rng' g'. sampler example_sampler 2 example_space_sample state04 0 () [cup0]
         = Inr ([0.2], rng', g'))
   \<and> (\<exists>rng' g'. sampler example_sampler 3 example_space_sample state04 0 () [cup0]
         = Inr ([0.3], rng', g'))
   \<and> (\<exists>rng' g'. sampler far_sampler 1 example_space_sample state04 0 () [cup0]
         = Inr ([1], rng', g'))"
proof -
  have x: "extend_features (dict_zip (ls_variables example_sampler) [cup0]) state04
      (ls_variables example_sampler) [1] = Inr [1, 0.4]"
    unfolding example_sampler_variables by (rule cup_features)
  have y: "extend_features (dict_zip (ls_variables far_sampler) [cup0]) state04
      (ls_variables far_sampler) [1] = Inr [1, 0.4]"
    unfolding far_sampler_variables by (rule cup_features)
  have n2: "nat 2 + 1 = Suc (Suc (Suc 0))" and n3: "nat 3 + 1 = Suc (Suc (Suc (Suc 0)))"
    and n1: "nat 1 + 1 = Suc (Suc 0)"
    by simp_all
  have a: "\<exists>rng' g'. sampler example_sampler 2 example_space_sample state04 0 () [cup0]
         = Inr ([0.2], rng', g')"
    using learned_sampler_rejection_sampling [OF x, of 2 example_space_sample 0 "()"]
    unfolding n2 by (simp add: example_sampler_def dummy_def box_contains_def)
  have b: "\<exists>rng' g'. sampler example_sampler 3 example_space_sample state04 0 () [cup0]
         = Inr ([0.3], rng', g')"
    using learned_sampler_rejection_sampling [OF x, of 3 example_space_sample 0 "()"]
    unfolding n3 by (simp add: example_sampler_def dummy_def box_contains_def)
  have c: "\<exists>rng' g'. sampler far_sampler 1 example_space_sample state04 0 () [cup0]
         = Inr ([1], rng', g')"
    using learned_sampler_rejection_sampling [OF y, of 1 example_space_sample 0 "()"]
    unfolding n1
    by (simp add: far_sampler_def dummy_def box_contains_def example_space_sample_def)
  from x a b c show ?thesis by blast
qed

text \<open>
  C10. Provided \<^verbatim>\<open>Box.sample\<close> returns a point of its box, every parameter vector that
  the learned sampler returns lies in the option's parameter space, whatever the state,
  the generator and the object binding; and the sampler does return one whenever the
  feature vector can be built and the maximum number of tries is not negative.
\<close>

theorem learned_sampler_in_params_space:
  assumes "\<And>g. box_contains (po_params_space (ls_param_option S))
                 (fst (space_sample (po_params_space (ls_param_option S)) g))"
  shows "(\<forall>params rng' g'.
            sampler S max_tries space_sample s rng g objects = Inr (params, rng', g') \<longrightarrow>
            box_contains (po_params_space (ls_param_option S)) params)
     \<and> (0 \<le> max_tries
          \<and> (\<exists>x. extend_features (dict_zip (ls_variables S) objects) s (ls_variables S) [1]
                 = Inr x) \<longrightarrow>
        (\<exists>params rng' g'.
            sampler S max_tries space_sample s rng g objects = Inr (params, rng', g')))"
proof (intro conjI allI impI)
  fix params rng' g'
  assume r: "sampler S max_tries space_sample s rng g objects = Inr (params, rng', g')"
  from sampler_Inr_defined [OF r] obtain x where
    m: "0 \<le> max_tries" and
    x: "extend_features (dict_zip (ls_variables S) objects) s (ls_variables S) [1] = Inr x"
    by blast
  define cands where "cands = draw_candidates (ls_predict_sample S) x (nat max_tries + 1) rng"
  let ?ok = "\<lambda>params. box_contains (po_params_space (ls_param_option S)) params
                          \<and> ls_classify S (x @ params)"
  from sampler_returns [OF x m, of space_sample rng g] r
  have p: "params = (case find ?ok cands of
              Some params \<Rightarrow> params
            | None \<Rightarrow>
                if box_contains (po_params_space (ls_param_option S)) (last cands)
                then last cands
                else fst (space_sample (po_params_space (ls_param_option S)) g))"
    unfolding cands_def [symmetric] Let_def by auto
  show "box_contains (po_params_space (ls_param_option S)) params"
  proof (cases "find ?ok cands")
    case None
    with p assms show ?thesis by auto
  next
    case (Some q)
    then have "?ok q" by (auto simp: find_Some_iff)
    with p Some show ?thesis by simp
  qed
next
  assume "0 \<le> max_tries
          \<and> (\<exists>x. extend_features (dict_zip (ls_variables S) objects) s (ls_variables S) [1]
                 = Inr x)"
  then obtain x where m: "0 \<le> max_tries" and
    x: "extend_features (dict_zip (ls_variables S) objects) s (ls_variables S) [1] = Inr x"
    by blast
  from sampler_returns [OF x m, of space_sample rng g]
  show "\<exists>params rng' g'.
            sampler S max_tries space_sample s rng g objects = Inr (params, rng', g')"
    by blast
qed

theorem learned_sampler_in_params_space_witness:
  "(\<forall>g. box_contains (po_params_space (ls_param_option far_sampler))
          (fst (example_space_sample (po_params_space (ls_param_option far_sampler)) g)))
   \<and> (\<exists>x. extend_features (dict_zip (ls_variables far_sampler) [cup0]) state04
             (ls_variables far_sampler) [1] = Inr x)
   \<and> (\<exists>params rng' g'.
         sampler far_sampler 0 example_space_sample state04 0 () [cup0] = Inr (params, rng', g')
         \<and> box_contains (Box [0.1] [1]) params)"
proof -
  have h: "\<And>g. box_contains (po_params_space (ls_param_option far_sampler))
          (fst (example_space_sample (po_params_space (ls_param_option far_sampler)) g))"
    by (simp add: far_sampler_def dummy_def example_space_sample_def box_contains_def)
  have y: "extend_features (dict_zip (ls_variables far_sampler) [cup0]) state04
      (ls_variables far_sampler) [1] = Inr [1, 0.4]"
    unfolding far_sampler_variables by (rule cup_features)
  have sp: "po_params_space (ls_param_option far_sampler) = Box [0.1] [1]"
    by (simp add: far_sampler_def dummy_def)
  from learned_sampler_in_params_space
         [of far_sampler example_space_sample 0 state04 0 "()" "[cup0]", OF h] y
  show ?thesis
    unfolding sp using h sp by (metis order_refl)
qed

section \<open>The teacher's sparse dataset (\<^verbatim>\<open>interactive_learning_approach.create_teacher_dataset\<close>)\<close>













section \<open>Learning preconditions (\<^verbatim>\<open>operator_learning._learn_preconditions\<close>)\<close>





subsection \<open>An example\<close>





section \<open>Examples for sampler learning (\<^verbatim>\<open>operator_learning._create_sampler_data\<close>)\<close>

subsection \<open>Which groundings become examples\<close>

lemma fold_error_appends:
  assumes "\<And>x p n r. x \<in> set xs \<Longrightarrow> body x (p, n) = Inr r \<Longrightarrow> r = (p @ P x, n @ N x)"
    and "fold_error body xs (p, n) = Inr r"
  shows "r = (p @ concat (map P xs), n @ concat (map N xs))"
  using assms
proof (induction xs arbitrary: p n)
  case Nil
  then show ?case by simp
next
  case (Cons x xs)
  from Cons.prems(2) obtain r' where b: "body x (p, n) = Inr r'"
    and f: "fold_error body xs r' = Inr r"
    by (auto split: sum.splits)
  from Cons.prems(1) [OF _ b] have r': "r' = (p @ P x, n @ N x)" by simp
  have "r = ((p @ P x) @ concat (map P xs), (n @ N x) @ concat (map N xs))"
    by (rule Cons.IH [OF _ f [unfolded r']]) (rule Cons.prems(1), auto)
  then show ?case by simp
qed


lemma grounding_example_Inr:
  assumes "grounding_example holds variables preconditions add_effects delete_effects
             at_partition t obj_to_var grounding = Inr ex"
  shows "add_example ex (p, n) =
     (p @ (if at_partition \<and> grounding = actual_grounding obj_to_var variables
           then [(tr_state t, invert_sub obj_to_var, tr_option t)] else []),
      n @ (if is_negative variables add_effects delete_effects at_partition t obj_to_var grounding
           then [(tr_state t, dict_zip variables grounding, tr_option t)] else []))"
  using assms
  by (auto simp: grounding_example_def is_negative_def ground_atoms_def Let_def
      split: if_splits sum.splits)

lemma member_examples_Inr:
  assumes "member_examples holds variables preconditions add_effects delete_effects
             param_option at_partition member (p, n) = Inr r"
  shows "r = (p @ positives_of variables at_partition member,
              n @ negatives_of variables add_effects delete_effects at_partition member)"
proof -
  obtain t obj_to_var where m: "member = (t, obj_to_var)" by (cases member)
  let ?P = "\<lambda>grounding. if at_partition \<and> grounding = actual_grounding obj_to_var variables
           then [(tr_state t, invert_sub obj_to_var, tr_option t)] else []"
  let ?N = "\<lambda>grounding.
      if is_negative variables add_effects delete_effects at_partition t obj_to_var grounding
      then [(tr_state t, dict_zip variables grounding, tr_option t)] else []"
  let ?body = "\<lambda>grounding data.
                  case grounding_example holds variables preconditions add_effects
                         delete_effects at_partition t obj_to_var grounding of
                    Inl e \<Rightarrow> Inl e
                  | Inr ex \<Rightarrow> Inr (add_example ex data)"
  from assms have f: "fold_error ?body (groundings variables t) (p, n) = Inr r"
    by (auto simp: member_examples_def m split: if_splits)
  have "r = (p @ concat (map ?P (groundings variables t)),
             n @ concat (map ?N (groundings variables t)))"
  proof (rule fold_error_appends [OF _ f])
    fix x p n r
    assume "?body x (p, n) = Inr r"
    then obtain ex where e: "grounding_example holds variables preconditions add_effects
             delete_effects at_partition t obj_to_var x = Inr ex" and r: "r = add_example ex (p, n)"
      by (auto split: sum.splits)
    show "r = (p @ ?P x, n @ ?N x)"
      unfolding r by (rule grounding_example_Inr [OF e])
  qed
  moreover have "concat (map ?P xs) = map (\<lambda>grounding. (tr_state t, invert_sub obj_to_var, tr_option t))
          (filter (\<lambda>grounding. at_partition \<and> grounding = actual_grounding obj_to_var variables) xs)"
    for xs by (induction xs) auto
  moreover have "concat (map ?N xs) = map (\<lambda>grounding. (tr_state t, dict_zip variables grounding, tr_option t))
          (filter (is_negative variables add_effects delete_effects at_partition t obj_to_var) xs)"
    for xs by (induction xs) auto
  ultimately show ?thesis
    by (simp add: positives_of_def negatives_of_def m)
qed

lemma partition_examples_Inr:
  assumes "fold_error (member_examples holds variables preconditions add_effects delete_effects
             param_option at_partition) part (p, n) = Inr r"
  shows "r = (p @ concat (map (positives_of variables at_partition) part),
              n @ concat (map (negatives_of variables add_effects delete_effects at_partition) part))"
  by (rule fold_error_appends [OF _ assms]) (rule member_examples_Inr)

lemma all_examples_Inr:
  assumes "fold_error
             (\<lambda>(idx, part_transitions).
                fold_error
                  (member_examples holds variables preconditions add_effects delete_effects
                     param_option (idx = partition_idx))
                  part_transitions)
             (enumerate 0 transitions) ([], []) = Inr r"
  shows "r = (all_positives transitions variables partition_idx,
              all_negatives transitions variables add_effects delete_effects partition_idx)"
proof -
  have "r = ([] @ concat (map (\<lambda>(idx, part_transitions).
                    concat (map (positives_of variables (idx = partition_idx)) part_transitions))
               (enumerate 0 transitions)),
             [] @ concat (map (\<lambda>(idx, part_transitions).
                    concat (map (negatives_of variables add_effects delete_effects
                                   (idx = partition_idx)) part_transitions))
               (enumerate 0 transitions)))"
    by (rule fold_error_appends [OF _ assms]) (auto dest: partition_examples_Inr)
  then show ?thesis by (simp add: all_positives_def all_negatives_def)
qed

lemma create_sampler_data_Inr:
  assumes "create_sampler_data holds transitions variables preconditions add_effects
             delete_effects param_option partition_idx = Inr (positive_data, negative_data)"
  shows "positive_data = all_positives transitions variables partition_idx"
    and "negative_data = all_negatives transitions variables add_effects delete_effects partition_idx"
    and "partition_idx < length transitions"
    and "length positive_data = length (transitions ! partition_idx)"
proof -
  from assms obtain r where f: "fold_error
             (\<lambda>(idx, part_transitions).
                fold_error
                  (member_examples holds variables preconditions add_effects delete_effects
                     param_option (idx = partition_idx))
                  part_transitions)
             (enumerate 0 transitions) ([], []) = Inr r"
    by (auto simp: create_sampler_data_def split: sum.splits)
  note r = all_examples_Inr [OF f]
  from assms f r show "positive_data = all_positives transitions variables partition_idx"
    and "negative_data = all_negatives transitions variables add_effects delete_effects partition_idx"
    and "partition_idx < length transitions"
    and "length positive_data = length (transitions ! partition_idx)"
    by (auto simp: create_sampler_data_def split: if_splits)
qed

subsection \<open>The two partitions of the one-cup scenario\<close>

lemma transition1_sel:
  "tr_state transition1 = state04" "tr_option transition1 = dummy_option"
  "tr_add_effects transition1 = {Atom pred0 [cup0]}" "tr_delete_effects transition1 = {}"
  by (simp_all add: transition1_eq)

lemma transition2_sel:
  "tr_state transition2 = state04" "tr_option transition2 = dummy_option"
  "tr_add_effects transition2 = {}" "tr_delete_effects transition2 = {}"
  by (simp_all add: transition2_eq)

lemma state_objects_state04: "state_objects state04 = [cup0]"
  by (simp add: state_objects_def state04_def)

lemma groundings_cup:
  "groundings [var_cup0] transition1 = [[cup0]]" "groundings [var_cup0] transition2 = [[cup0]]"
  "groundings [] transition1 = [[]]" "groundings [] transition2 = [[]]"
  by (simp_all add: groundings_def transition1_sel transition2_sel state_objects_state04
      get_object_combinations_def var_cup0_def cup0_def)

lemma scenario_adds_pred0:
  "create_sampler_data pred0_holds transitions_ex [var_cup0] {} {Atom pred0 [var_cup0]} {}
     dummy 0
   = Inr ([(state04, invert_sub [(cup0, var_cup0)], dummy_option)],
          [(state04, dict_zip [var_cup0] [cup0], dummy_option)])"
  by (simp add: create_sampler_data_def transitions_ex_def enumerate_eq_zip member_examples_def
    groundings_cup grounding_example_def actual_grounding_def invert_sub_def
    preconditions_hold_def ground_atoms_def substitute_def dict_zip_def transition1_sel
    transition2_sel dummy_option_def)

lemma scenario_no_effect:
  "create_sampler_data pred0_holds transitions_ex [] {} {} {} dummy 1
   = Inr ([(state04, invert_sub [], dummy_option)], [])"
  by (simp add: create_sampler_data_def transitions_ex_def enumerate_eq_zip member_examples_def
    groundings_cup grounding_example_def actual_grounding_def invert_sub_def
    preconditions_hold_def ground_atoms_def substitute_def dict_zip_def transition1_sel
    transition2_sel dummy_option_def)















text \<open>
  C3. When \<open>create_sampler_data\<close> returns, its negative examples are, in the order of
  the partitions, their transitions and the groundings of the target variables over each
  transition's objects, exactly the groundings that are not the transition's own recorded
  grounding in the target partition and under which the target's grounded add-effects
  and delete-effects are not both subsets of the transition's add-effects and
  delete-effects. In the one-cup scenario, the partition that adds \<open>Pred0\<close> gets one
  positive and one negative example, and the partition without effects gets one positive
  and no negative example.
\<close>

theorem sampler_data_negatives:
  "(create_sampler_data holds transitions variables preconditions add_effects delete_effects
      param_option partition_idx = Inr (positive_data, negative_data) \<longrightarrow>
    negative_data =
      concat (map (\<lambda>(idx, part_transitions).
        concat (map (\<lambda>(t, obj_to_var).
          map (\<lambda>grounding. (tr_state t, dict_zip variables grounding, tr_option t))
            (filter (is_negative variables add_effects delete_effects
                       (idx = partition_idx) t obj_to_var)
               (groundings variables t)))
          part_transitions))
        (enumerate 0 transitions)))
   \<and> (\<exists>positive_data negative_data.
        create_sampler_data pred0_holds transitions_ex [var_cup0] {} {Atom pred0 [var_cup0]} {}
          dummy 0 = Inr (positive_data, negative_data)
        \<and> length positive_data = 1 \<and> length negative_data = 1)
   \<and> (\<exists>positive_data negative_data.
        create_sampler_data pred0_holds transitions_ex [] {} {} {} dummy 1
          = Inr (positive_data, negative_data)
        \<and> length positive_data = 1 \<and> length negative_data = 0)"
proof (intro conjI impI)
  assume "create_sampler_data holds transitions variables preconditions add_effects
      delete_effects param_option partition_idx = Inr (positive_data, negative_data)"
  then have "negative_data
      = all_negatives transitions variables add_effects delete_effects partition_idx"
    by (rule create_sampler_data_Inr)
  then show "negative_data =
      concat (map (\<lambda>(idx, part_transitions).
        concat (map (\<lambda>(t, obj_to_var).
          map (\<lambda>grounding. (tr_state t, dict_zip variables grounding, tr_option t))
            (filter (is_negative variables add_effects delete_effects
                       (idx = partition_idx) t obj_to_var)
               (groundings variables t)))
          part_transitions))
        (enumerate 0 transitions))"
    by (simp add: all_negatives_def negatives_of_def [abs_def])
next
  show "\<exists>positive_data negative_data.
        create_sampler_data pred0_holds transitions_ex [var_cup0] {} {Atom pred0 [var_cup0]} {}
          dummy 0 = Inr (positive_data, negative_data)
        \<and> length positive_data = 1 \<and> length negative_data = 1"
    using scenario_adds_pred0 by auto
next
  show "\<exists>positive_data negative_data.
        create_sampler_data pred0_holds transitions_ex [] {} {} {} dummy 1
          = Inr (positive_data, negative_data)
        \<and> length positive_data = 1 \<and> length negative_data = 0"
    using scenario_no_effect by auto
qed

theorem sampler_data_negatives_witness:
  "create_sampler_data pred0_holds transitions_ex [var_cup0] {} {Atom pred0 [var_cup0]} {}
     dummy 0
   = Inr ([(state04, invert_sub [(cup0, var_cup0)], dummy_option)],
          [(state04, dict_zip [var_cup0] [cup0], dummy_option)])
   \<and> [(state04, dict_zip [var_cup0] [cup0], dummy_option)] =
      concat (map (\<lambda>(idx, part_transitions).
        concat (map (\<lambda>(t, obj_to_var).
          map (\<lambda>grounding. (tr_state t, dict_zip [var_cup0] grounding, tr_option t))
            (filter (is_negative [var_cup0] {Atom pred0 [var_cup0]} {} (idx = 0) t obj_to_var)
               (groundings [var_cup0] t)))
          part_transitions))
        (enumerate 0 transitions_ex))
   \<and> groundings [var_cup0] transition1 = [[cup0]]
   \<and> groundings [var_cup0] transition2 = [[cup0]]
   \<and> \<not> is_negative [var_cup0] {Atom pred0 [var_cup0]} {} True transition1
          [(cup0, var_cup0)] [cup0]
   \<and> is_negative [var_cup0] {Atom pred0 [var_cup0]} {} False transition2 [] [cup0]"
proof -
  note h = scenario_adds_pred0
  from sampler_data_negatives
    [of pred0_holds transitions_ex "[var_cup0]" "{}" "{Atom pred0 [var_cup0]}" "{}" dummy 0
        "[(state04, invert_sub [(cup0, var_cup0)], dummy_option)]"
        "[(state04, dict_zip [var_cup0] [cup0], dummy_option)]"] h
  have n: "[(state04, dict_zip [var_cup0] [cup0], dummy_option)] =
      concat (map (\<lambda>(idx, part_transitions).
        concat (map (\<lambda>(t, obj_to_var).
          map (\<lambda>grounding. (tr_state t, dict_zip [var_cup0] grounding, tr_option t))
            (filter (is_negative [var_cup0] {Atom pred0 [var_cup0]} {} (idx = 0) t obj_to_var)
               (groundings [var_cup0] t)))
          part_transitions))
        (enumerate 0 transitions_ex))"
    by blast
  have a: "\<not> is_negative [var_cup0] {Atom pred0 [var_cup0]} {} True transition1
          [(cup0, var_cup0)] [cup0]"
    by (simp add: is_negative_def actual_grounding_def invert_sub_def)
  have b: "is_negative [var_cup0] {Atom pred0 [var_cup0]} {} False transition2 [] [cup0]"
    by (simp add: is_negative_def transition2_sel)
  from h n a b show ?thesis by (simp only: groundings_cup simp_thms)
qed




section \<open>Learning operators (\<^verbatim>\<open>operator_learning.learn_operators_for_option\<close>)\<close>

lemma fold_error_collect:
  assumes "\<And>x acc r. x \<in> set xs \<Longrightarrow> body x acc = Inr r \<Longrightarrow>
             (if Q x then \<exists>y. R x y \<and> r = acc @ [y] else r = acc)"
    and "fold_error body xs acc = Inr r"
  shows "\<exists>ys. r = acc @ ys \<and> list_all2 R (filter Q xs) ys"
  using assms
proof (induction xs arbitrary: acc)
  case Nil
  then show ?case by simp
next
  case (Cons x xs)
  from Cons.prems(2) obtain r' where b: "body x acc = Inr r'"
    and f: "fold_error body xs r' = Inr r"
    by (auto split: sum.splits)
  from Cons.IH [OF _ f] Cons.prems(1)
  obtain ys where ys: "r = r' @ ys" "list_all2 R (filter Q xs) ys"
    by (metis list.set_intros(2))
  from Cons.prems(1) [OF _ b]
  have x: "if Q x then \<exists>y. R x y \<and> r' = acc @ [y] else r' = acc" by simp
  show ?case
  proof (cases "Q x")
    case True
    with x obtain y where "R x y" "r' = acc @ [y]" by auto
    with ys True show ?thesis by auto
  next
    case False
    with x ys show ?thesis by auto
  qed
qed

text \<open>
  C8. The operators that \<open>learn_operators_for_option\<close> returns are, in order, one for
  each partition that has at least \<^verbatim>\<open>CFG.min_data_for_operator\<close> transitions and whose
  add-effects and delete-effects are not both empty: the operator of partition \<open>i\<close> is
  named after the option and \<open>i\<close>, carries the effects and option variables of that
  partition, and the union of its effects is not empty. A partition with too few
  transitions or with both effect sets empty has no operator in the result.
\<close>

theorem operators_from_partitions:
  assumes "partition_transitions unify transitions
             = Inr (option_vars, add_effects, delete_effects, partitions)"
    and "learn_operators_for_option models holds unify min_data_for_operator option
           transitions do_sampler_learning = Inr operators"
  shows "list_all2
           (\<lambda>(i, part_transitions) operator.
              op_name operator = po_name option @ str_nat i
              \<and> op_option operator = option
              \<and> op_option_vars operator = option_vars ! i
              \<and> op_add_effects operator = add_effects ! i
              \<and> op_delete_effects operator = delete_effects ! i
              \<and> min_data_for_operator \<le> int (length part_transitions)
              \<and> op_add_effects operator \<union> op_delete_effects operator \<noteq> {})
           (filter (\<lambda>(i, part_transitions).
                      min_data_for_operator \<le> int (length part_transitions)
                      \<and> \<not> (add_effects ! i = {} \<and> delete_effects ! i = {}))
              (enumerate 0 partitions))
           operators"
proof -
  let ?parts = "(option_vars, add_effects, delete_effects, partitions)"
  let ?Q = "\<lambda>(i, part_transitions).
                      min_data_for_operator \<le> int (length part_transitions)
                      \<and> \<not> (add_effects ! i = {} \<and> delete_effects ! i = {})"
  let ?R = "\<lambda>(i, part_transitions) operator.
              op_name operator = po_name option @ str_nat i
              \<and> op_option operator = option
              \<and> op_option_vars operator = option_vars ! i
              \<and> op_add_effects operator = add_effects ! i
              \<and> op_delete_effects operator = delete_effects ! i
              \<and> min_data_for_operator \<le> int (length part_transitions)
              \<and> op_add_effects operator \<union> op_delete_effects operator \<noteq> {}"
  from assms have f: "fold_error
            (learn_operator models holds unify min_data_for_operator option
               do_sampler_learning ?parts)
            (enumerate 0 partitions) [] = Inr operators"
    by (simp add: learn_operators_for_option_def)
  have "\<exists>ys. operators = [] @ ys \<and> list_all2 ?R (filter ?Q (enumerate 0 partitions)) ys"
  proof (rule fold_error_collect [OF _ f])
    fix x acc r
    assume "learn_operator models holds unify min_data_for_operator option
               do_sampler_learning ?parts x acc = Inr r"
    then show "if ?Q x then \<exists>y. ?R x y \<and> r = acc @ [y] else r = acc"
      by (cases x)
         (auto simp: learn_operator_def Let_def split: if_splits sum.splits prod.splits)
  qed
  then show ?thesis by simp
qed

subsection \<open>The operators of the one-cup scenario\<close>

lemma str_nat_0: "str_nat 0 = ''0''"
  by (simp add: str_nat.simps digit_char_def)

lemma effect_objects_cup:
  "effect_objects transition1 = {cup0}" "effect_objects transition2 = {}"
  by (simp_all add: effect_objects_def transition1_sel transition2_sel dummy_option_def)

lemma new_partition_transition1:
  "new_partition transition1 = Inr ([], {Atom pred0 [x0_cup]}, {}, [(cup0, x0_cup)])"
  by (simp add: new_partition_def effect_objects_cup transition1_sel dummy_option_def
      lift_atoms_def substitute_def str_nat_0 x0_cup_def cup0_def)

lemma new_partition_transition2:
  "new_partition transition2 = Inr ([], {}, {}, [])"
  by (simp add: new_partition_def effect_objects_cup transition2_sel dummy_option_def
      lift_atoms_def)

lemma unify_transition1:
  "unify' (one_object_unify cup0) {Atom pred0 [cup0]} {} [] {Atom pred0 [x0_cup]} {} []
     = (True, [(cup0, x0_cup)])"
  by (simp add: unify'_def one_object_unify_def wrap_atom_predicates_def Let_def insert_commute)

lemma unify_transition2:
  "unify' (one_object_unify cup0) {} {} [] {Atom pred0 [x0_cup]} {} [] = (False, [])"
  by (auto simp add: unify'_def one_object_unify_def wrap_atom_predicates_def Let_def)

lemma partition_cup:
  "partition_transitions (one_object_unify cup0) [transition1, transition2]
     = Inr ([[], []], [{Atom pred0 [x0_cup]}, {}], [{}, {}],
            [[(transition1, [(cup0, x0_cup)])], [(transition2, [])]])"
  by (simp add: partition_transitions_def partition_step_def new_partition_transition1
      new_partition_transition2 transition2_sel dummy_option_def unify_transition2)

lemma member_transition1:
  "member_preconditions (one_object_unify cup0) [] {Atom pred0 [x0_cup]} {} transition1
     = Inr ([x0_cup], {})"
  by (simp add: member_preconditions_def transition1_sel transition1_eq dummy_option_def
      unify_transition1 lift_atoms_def Let_def)

lemma operators_cup:
  "learn_operators_for_option no_models pred0_holds (one_object_unify cup0) 1 dummy
     [transition1, transition2] False
   = Inr [\<lparr> op_name = ''dummy0'', op_parameters = [x0_cup], op_preconditions = {},
            op_add_effects = {Atom pred0 [x0_cup]}, op_delete_effects = {},
            op_option = dummy, op_option_vars = [], op_sampler = RandomSampler dummy \<rparr>]"
  by (simp add: learn_operators_for_option_def partition_cup enumerate_eq_zip
      learn_operator_def learn_preconditions_def member_transition1 str_nat_0 dummy_def)

theorem operators_from_partitions_witness:
  "partition_transitions (one_object_unify cup0) [transition1, transition2]
     = Inr ([[], []], [{Atom pred0 [x0_cup]}, {}], [{}, {}],
            [[(transition1, [(cup0, x0_cup)])], [(transition2, [])]])
   \<and> (\<exists>operator.
        learn_operators_for_option no_models pred0_holds (one_object_unify cup0) 1 dummy
          [transition1, transition2] False = Inr [operator]
        \<and> op_name operator = ''dummy0''
        \<and> op_add_effects operator = {Atom pred0 [x0_cup]}
        \<and> op_delete_effects operator = {})"
proof -
  from operators_from_partitions [OF partition_cup operators_cup]
  show ?thesis
    using partition_cup operators_cup
    by (simp add: enumerate_eq_zip str_nat_0 dummy_def)
qed

section \<open>A dataset on which the invention loop runs forever\<close>

lemma adding_sel:
  "tr_state (adding k) = state04" "tr_next_state (adding k) = state09"
  "tr_atoms (adding k) = invented_atoms k" "tr_option (adding k) = dummy_option"
  "tr_next_atoms (adding k) = insert (Atom pred0 [cup0]) (invented_atoms k)"
  "tr_add_effects (adding k) = {Atom pred0 [cup0]}" "tr_delete_effects (adding k) = {}"
  by (simp_all add: adding_def)

lemma idle_sel:
  "tr_state (idle k) = state04" "tr_next_state (idle k) = state04"
  "tr_atoms (idle k) = invented_atoms k" "tr_option (idle k) = dummy_option"
  "tr_next_atoms (idle k) = invented_atoms k"
  "tr_add_effects (idle k) = {}" "tr_delete_effects (idle k) = {}"
  by (simp_all add: idle_def)

lemma effect_objects_family:
  "effect_objects (adding k) = {cup0}" "effect_objects (idle k) = {}"
  by (simp_all add: effect_objects_def adding_sel idle_sel dummy_option_def)

lemma new_partition_adding:
  "new_partition (adding k) = Inr ([], {Atom pred0 [x0_cup]}, {}, [(cup0, x0_cup)])"
  by (simp add: new_partition_def effect_objects_family adding_sel dummy_option_def
      lift_atoms_def substitute_def str_nat_0 x0_cup_def cup0_def)

lemma new_partition_idle:
  "new_partition (idle k) = Inr ([], {}, {}, [])"
  by (simp add: new_partition_def effect_objects_family idle_sel dummy_option_def
      lift_atoms_def)

lemma partition_family:
  "partition_transitions (one_object_unify cup0) [adding k, idle k]
     = Inr ([[], []], [{Atom pred0 [x0_cup]}, {}], [{}, {}],
            [[(adding k, [(cup0, x0_cup)])], [(idle k, [])]])"
  by (simp add: partition_transitions_def partition_step_def new_partition_adding
      new_partition_idle idle_sel dummy_option_def unify_transition2)

lemma lift_invented_atoms:
  "substitute (map_of [(cup0, x0_cup)]) ` invented_atoms k = invented_preconditions k"
  by (simp add: invented_atoms_def invented_preconditions_def image_image substitute_def)

lemma member_adding:
  "member_preconditions (one_object_unify cup0) [] {Atom pred0 [x0_cup]} {} (adding k)
     = Inr ([x0_cup], invented_preconditions k)"
proof -
  have f: "{a \<in> invented_atoms k. \<forall>ob \<in> set (atom_args a). ob = cup0} = invented_atoms k"
    by (auto simp: invented_atoms_def)
  have "lift_atoms (map_of [(cup0, x0_cup)]) (invented_atoms k)
      = Inr (invented_preconditions k)"
    unfolding lift_atoms_def lift_invented_atoms by (auto simp: invented_atoms_def)
  then have l: "lift_atoms [cup0 \<mapsto> x0_cup] (invented_atoms k) = Inr (invented_preconditions k)"
    by simp
  show ?thesis
    unfolding member_preconditions_def adding_sel effect_objects_family
    by (simp add: dummy_option_def unify_transition1 f l)
qed

lemma operators_family:
  "learn_operators_for_option no_models pred0_holds (one_object_unify cup0) 1 dummy
     [adding k, idle k] False = Inr [family_operator k]"
  by (simp add: learn_operators_for_option_def partition_family enumerate_eq_zip
      learn_operator_def learn_preconditions_def member_adding str_nat_0 dummy_def
      family_operator_def)

lemma dom_state04: "dom state04 = {cup0}"
  by (simp add: state04_def)

lemma group_family:
  "group_by_objects (family_operator k) [adding k, idle k] = Inr [({cup0}, [adding k, idle k])]"
  by (simp add: group_by_objects_def family_operator_def adding_sel idle_sel dummy_option_def
      dom_state04)

lemma wrap_invented:
  "wrap_atom_predicates ''PRE-'' (invented_preconditions k) = pre_wrapped k x0_cup"
  "wrap_atom_predicates ''PRE-'' (invented_atoms k) = pre_wrapped k cup0"
  by (simp_all add: wrap_atom_predicates_def invented_preconditions_def invented_atoms_def
      pre_wrapped_def image_image invented_def)

lemma wrap_singleton:
  "wrap_atom_predicates ''ADD-'' {Atom pred0 [x]} = {add_pred0 x}"
  by (simp add: wrap_atom_predicates_def pred0_def add_pred0_def)

lemma wrap_empty: "wrap_atom_predicates pfx {} = {}"
  by (simp add: wrap_atom_predicates_def)

lemma lifteds_family:
  "operator_lifteds (family_operator k)
     = pre_wrapped k x0_cup \<union> {add_pred0 x0_cup, opt_args_atom}"
  unfolding operator_lifteds_def
  by (simp add: family_operator_def wrap_invented wrap_singleton wrap_empty dummy_def
      opt_args_atom_def insert_commute)

lemma lifteds_variables:
  "(\<Union>a \<in> pre_wrapped k x0_cup \<union> {add_pred0 x0_cup, opt_args_atom}. set (atom_args a))
     = {x0_cup}"
  by (auto simp: pre_wrapped_def add_pred0_def opt_args_atom_def)

lemma dict_zip_x0: "dict_zip [x0_cup] [cup0] = [x0_cup \<mapsto> cup0]"
  by (simp add: dict_zip_def)

lemma groundings_family:
  "get_all_groundings (operator_lifteds (family_operator k)) {cup0}
     = [(family_grounding k, [x0_cup \<mapsto> cup0])]"
proof -
  have c: "get_object_combinations [cup0] [cup_type] False = [[cup0]]"
    by (simp add: get_object_combinations_def cup0_def)
  have s1: "substitute [x0_cup \<mapsto> cup0] ` pre_wrapped k x0_cup = pre_wrapped k cup0"
    by (simp add: pre_wrapped_def image_image substitute_def)
  have s2: "substitute [x0_cup \<mapsto> cup0] (add_pred0 x0_cup) = add_pred0 cup0"
    "substitute [x0_cup \<mapsto> cup0] opt_args_atom = opt_args_atom"
    by (simp_all add: add_pred0_def opt_args_atom_def substitute_def)
  have s: "substitute [x0_cup \<mapsto> cup0] ` (pre_wrapped k x0_cup \<union> {add_pred0 x0_cup, opt_args_atom})
      = pre_wrapped k cup0 \<union> {add_pred0 cup0, opt_args_atom}"
    by (simp add: image_Un s1 s2)
  show ?thesis
    unfolding get_all_groundings_def lifteds_family lifteds_variables
    by (simp add: c x0_cup_def [THEN arg_cong, of var_type] dict_zip_x0 s1 s2
        family_grounding_def)
qed

lemma pre_opt_grounding_family:
  "{a \<in> family_grounding k. pred_name (atom_pred a) = ''OPT-ARGS''
                                \<or> prefix ''PRE-'' (pred_name (atom_pred a))}
     \<subseteq> pre_wrapped k cup0 \<union> {opt_args_atom}"
  by (auto simp: family_grounding_def add_pred0_def)

lemma ground_add_pred0:
  "ground_atoms [x0_cup \<mapsto> cup0] {add_pred0 x0_cup} = Inr {add_pred0 cup0}"
  by (simp add: ground_atoms_def substitute_def add_pred0_def)

lemma ground_empty: "ground_atoms sub {} = Inr {}"
  by (simp add: ground_atoms_def)

lemma example_adding:
  "invention_example (family_operator k) (family_grounding k, [x0_cup \<mapsto> cup0]) (adding k) data
     = add_vectors state04 [x0_cup \<mapsto> cup0] True data"
  using pre_opt_grounding_family [of k]
  by (simp add: invention_example_def family_operator_def adding_sel wrap_invented
      wrap_singleton wrap_empty ground_add_pred0 ground_empty dummy_def dummy_option_def
      opt_args_atom_def Let_def)

lemma example_idle:
  "invention_example (family_operator k) (family_grounding k, [x0_cup \<mapsto> cup0]) (idle k) data
     = add_vectors state04 [x0_cup \<mapsto> cup0] False data"
  using pre_opt_grounding_family [of k]
  by (simp add: invention_example_def family_operator_def idle_sel wrap_invented
      wrap_singleton wrap_empty ground_add_pred0 ground_empty dummy_def dummy_option_def
      opt_args_atom_def Let_def)

lemma add_vectors_x0:
  "add_vectors state04 [x0_cup \<mapsto> cup0] b [([x0_cup], pos, neg)]
     = Inr [if b then ([x0_cup], pos @ [[0.4]], neg) else ([x0_cup], pos, neg @ [[0.4]])]"
  by (simp add: add_vectors_def state04_def)

lemma powerset_x0: "powerset_nonempty [x] = [[x]]"
  by (simp add: powerset_nonempty_def)

lemma data_family:
  "invention_data_of (family_operator k) [({cup0}, [adding k, idle k])]
     = Inr [([x0_cup], [[0.4]], [[0.4]])]"
proof -
  have p: "op_parameters (family_operator k) = [x0_cup]"
    by (simp add: family_operator_def)
  show ?thesis
    unfolding invention_data_of_def p powerset_x0
    by (simp add: groundings_family example_adding example_idle add_vectors_x0)
qed

lemma fit_score_half: "fit_score (\<lambda>x. True) [[0.4], [0.4]] [1, 0] = 1 / 2"
  by (simp add: fit_score_def)

lemma consider_family:
  "consider_params (cup_env accept_score) k ([x0_cup], [[0.4]], [[0.4]]) None
     = (if accept_score \<le> 1 / 2
        then Some ((invented k, vec_classifier (\<lambda>x. True)), 1 / 2 - 0.1)
        else None)"
  using fit_score_half
  by (simp add: consider_params_def cup_env_def invented_def x0_cup_def Let_def not_less)

lemma invent_family:
  "invent_for_operator (cup_env accept_score) k (family_operator k) [adding k, idle k]
     = Inr (if accept_score \<le> 1 / 2 then Some (invented k, vec_classifier (\<lambda>x. True))
            else None)"
proof -
  have p: "op_parameters (family_operator k) = [x0_cup]"
    by (simp add: family_operator_def)
  show ?thesis
    using consider_family [of accept_score k]
    by (simp add: invent_for_operator_def group_family data_family p)
qed

lemma invent_some_family:
  "invent_for_some_operator (cup_env accept_score) k [(dummy, [adding k, idle k])] ()
     = Inr (if accept_score \<le> 1 / 2 then Some (invented k, vec_classifier (\<lambda>x. True))
            else None, ())"
proof -
  have e: "co_permutation (cup_env accept_score) = (\<lambda>rng n. ([0..<n], rng))"
    "co_models (cup_env accept_score) = no_models"
    "co_holds (cup_env accept_score) = pred0_holds"
    "co_unify (cup_env accept_score) = one_object_unify cup0"
    "co_min_data_for_operator (cup_env accept_score) = 1"
    by (simp_all add: cup_env_def)
  show ?thesis
    by (simp add: invent_for_some_operator_def e operators_family invent_family)
qed

lemma state_objects_state09: "state_objects state09 = [cup0]"
  by (simp add: state_objects_def state09_def)

lemma negation_not_invented: "negation (invented k) \<noteq> invented k"
  by (simp add: negation_def invented_def)

lemma abstract_new:
  assumes "state_objects s = [cup0]"
  shows "abstract (new_holds (invented k) (vec_classifier (\<lambda>x. True))) s
           {invented k, negation (invented k)} = {Atom (invented k) [cup0]}"
proof -
  have c: "get_object_combinations [cup0] [cup_type] False = [[cup0]]"
    by (simp add: get_object_combinations_def cup0_def)
  have t: "pred_types (invented k) = [cup_type]" "pred_types (negation (invented k)) = [cup_type]"
    by (simp_all add: invented_def negation_def)
  show ?thesis
    using negation_not_invented [of k]
    by (auto simp: abstract_Union assms t c new_holds_def vec_classifier_def)
qed

lemma invented_atoms_Suc:
  "invented_atoms (Suc k) = insert (Atom (invented k) [cup0]) (invented_atoms k)"
  by (simp add: invented_atoms_def lessThan_Suc)

lemma pred0_not_invented: "Atom pred0 [cup0] \<notin> invented_atoms k"
  by (auto simp: invented_atoms_def invented_def pred0_def)

lemma reabstract_adding:
  "reabstract (new_holds (invented k) (vec_classifier (\<lambda>x. True))) (invented k)
     (negation (invented k)) (adding k) = adding (Suc k)"
  using pred0_not_invented [of "Suc k"]
  by (auto simp: reabstract_def Let_def adding_def invented_atoms_Suc
      abstract_new [OF state_objects_state04] abstract_new [OF state_objects_state09])

lemma reabstract_idle:
  "reabstract (new_holds (invented k) (vec_classifier (\<lambda>x. True))) (invented k)
     (negation (invented k)) (idle k) = idle (Suc k)"
  by (auto simp: reabstract_def Let_def idle_def invented_atoms_Suc
      abstract_new [OF state_objects_state04])

lemma iteration_family:
  assumes "accept_score \<le> 1 / 2"
  shows "invention_iteration (cup_env accept_score) (family_state k)
           = Inr (family_state (Suc k), True)"
proof -
  have g: "co_get_negation (cup_env accept_score) = negation"
    by (simp add: cup_env_def)
  show ?thesis
    using assms
    by (simp add: invention_iteration_def family_state_def invent_some_family g
        reabstract_adding reabstract_idle)
qed

lemma loop_family:
  assumes "accept_score \<le> 1 / 2"
  shows "invention_loop (cup_env accept_score) fuel (family_state k) = None"
proof (induction fuel arbitrary: k)
  case 0
  show ?case by simp
next
  case (Suc fuel)
  show ?case
    by (simp add: iteration_family [OF assms] Suc.IH)
qed

lemma initial_family:
  "generate_transitions Inr pred0_holds
     [([state04, state09], [dummy_option]), ([state04, state04], [dummy_option])] {pred0}
   = Inr (snd (family_state 0))"
  by (simp add: generate_transitions_def family_state_def adding_def idle_def
      make_transition_def abstract_state04 abstract_state09 invented_atoms_def
      dummy_option_def Let_def)

section \<open>The iterations of the invention loop\<close>

lemma consider_params_name:
  assumes "\<forall>p c sc. best = Some ((p, c), sc) \<longrightarrow> pred_name p = invented_name n"
    and "consider_params env n entry best = Some ((p, c), sc)"
  shows "pred_name p = invented_name n"
  using assms
  by (cases entry)
     (auto simp: consider_params_def Let_def invented_name_def split: if_splits option.splits)

lemma fold_consider_params_name:
  assumes "\<forall>p c sc. best = Some ((p, c), sc) \<longrightarrow> pred_name p = invented_name n"
    and "fold (consider_params env n) data best = Some ((p, c), sc)"
  shows "pred_name p = invented_name n"
  using assms
proof (induction data arbitrary: best)
  case Nil
  then show ?case by simp
next
  case (Cons entry data)
  have "\<forall>p c sc. consider_params env n entry best = Some ((p, c), sc)
          \<longrightarrow> pred_name p = invented_name n"
    using consider_params_name [OF Cons.prems(1)] by blast
  from Cons.IH [OF this] Cons.prems(2) show ?case by simp
qed

lemma invent_for_operator_name:
  assumes "invent_for_operator env n operator transitions = Inr (Some (p, c))"
  shows "pred_name p = invented_name n"
proof -
  from assms obtain data sc where
    "fold (consider_params env n) data None = Some ((p, c), sc)"
    by (auto simp: invent_for_operator_def split: if_splits sum.splits option.splits)
  then show ?thesis
    by (rule fold_consider_params_name [rotated]) simp
qed

lemma invent_for_operators_name:
  assumes "invent_for_operators env n operators transitions perm = Inr (Some (p, c))"
  shows "pred_name p = invented_name n"
  using assms
  by (induction perm)
     (auto split: if_splits sum.splits option.splits dest: invent_for_operator_name)

lemma invent_for_options_name:
  assumes "invent_for_options env n tbo perm rng = Inr (Some (p, c), rng')"
  shows "pred_name p = invented_name n"
  using assms
  by (induction perm arbitrary: rng)
     (auto split: if_splits sum.splits option.splits prod.splits
           dest: invent_for_operators_name)

lemma invent_for_some_operator_name:
  assumes "invent_for_some_operator env n tbo rng = Inr (Some (p, c), rng')"
  shows "pred_name p = invented_name n"
  using assms
  by (auto simp: invent_for_some_operator_def split: prod.splits dest: invent_for_options_name)

text \<open>
  C4. An iteration of the invention loop in which \<open>invent_for_some_operator\<close> finds a
  candidate names it \<^verbatim>\<open>InventedPredicate-\<close> followed by the invention counter, adds
  the candidate and its negation, and nothing else, to the learned predicates, increments
  the counter by one and goes on with the loop. An iteration that finds no candidate
  leaves the learned predicates, the counter and the transitions as they are and ends the
  loop.
\<close>

theorem invention_iteration_adds_pair:
  "(invent_for_some_operator env (num_inventions self) tbo (approach_rng self)
      = Inr (Some (new_predicate, c), rng') \<longrightarrow>
    pred_name new_predicate = ''InventedPredicate-'' @ str_nat (num_inventions self)
    \<and> (\<exists>self' tbo'.
         invention_iteration env (self, tbo) = Inr ((self', tbo'), True)
         \<and> learned_predicates self'
             = learned_predicates self \<union> {new_predicate, co_get_negation env new_predicate}
         \<and> num_inventions self' = num_inventions self + 1
         \<and> invention_loop env (Suc fuel) (self, tbo) = invention_loop env fuel (self', tbo')))
   \<and> (invent_for_some_operator env (num_inventions self) tbo (approach_rng self)
        = Inr (None, rng') \<longrightarrow>
      invention_iteration env (self, tbo) = Inr ((self\<lparr>approach_rng := rng'\<rparr>, tbo), False)
      \<and> invention_loop env (Suc fuel) (self, tbo)
          = Some (Inr (self\<lparr>approach_rng := rng'\<rparr>, tbo)))"
proof (intro conjI impI)
  assume a: "invent_for_some_operator env (num_inventions self) tbo (approach_rng self)
      = Inr (Some (new_predicate, c), rng')"
  from invent_for_some_operator_name [OF a]
  show "pred_name new_predicate = ''InventedPredicate-'' @ str_nat (num_inventions self)"
    by (simp add: invented_name_def)
  show "\<exists>self' tbo'.
         invention_iteration env (self, tbo) = Inr ((self', tbo'), True)
         \<and> learned_predicates self'
             = learned_predicates self \<union> {new_predicate, co_get_negation env new_predicate}
         \<and> num_inventions self' = num_inventions self + 1
         \<and> invention_loop env (Suc fuel) (self, tbo) = invention_loop env fuel (self', tbo')"
    by (auto simp: invention_iteration_def a Let_def)
next
  assume a: "invent_for_some_operator env (num_inventions self) tbo (approach_rng self)
        = Inr (None, rng')"
  then show "invention_iteration env (self, tbo)
      = Inr ((self\<lparr>approach_rng := rng'\<rparr>, tbo), False)"
    by (simp add: invention_iteration_def)
  then show "invention_loop env (Suc fuel) (self, tbo)
          = Some (Inr (self\<lparr>approach_rng := rng'\<rparr>, tbo))"
    by simp
qed

text \<open>
  C7 (as amended). When the invention loop returns within \<open>fuel\<close> iterations, the
  invention counter has grown by the number of inventing iterations, which is below
  \<open>fuel\<close>, the learned predicates have only grown, and the last iteration found no
  candidate on the final transitions.
\<close>

theorem invention_loop_returns:
  assumes "invention_loop env fuel (self, tbo) = Some (Inr (self', tbo'))"
  shows "num_inventions self \<le> num_inventions self'
    \<and> num_inventions self' - num_inventions self < fuel
    \<and> learned_predicates self \<subseteq> learned_predicates self'
    \<and> (\<exists>rng. invent_for_some_operator env (num_inventions self') tbo' rng
                = Inr (None, approach_rng self'))"
  using assms
proof (induction fuel arbitrary: self tbo)
  case 0
  then show ?case by simp
next
  case (Suc fuel)
  show ?case
  proof (cases "invent_for_some_operator env (num_inventions self) tbo (approach_rng self)")
    case (Inl e)
    with Suc.prems show ?thesis by (simp add: invention_iteration_def)
  next
    case (Inr r)
    obtain cand rng' where r: "r = (cand, rng')" by (cases r)
    show ?thesis
    proof (cases cand)
      case None
      with Inr r Suc.prems have "self' = self\<lparr>approach_rng := rng'\<rparr>" "tbo' = tbo"
        by (simp_all add: invention_iteration_def)
      with Inr r None show ?thesis by auto
    next
      case (Some pc)
      obtain p c where pc: "pc = (p, c)" by (cases pc)
      define self1 where "self1 = self\<lparr>learned_predicates :=
                              insert (co_get_negation env p)
                                (insert p (learned_predicates self)),
                            num_inventions := num_inventions self + 1,
                            approach_rng := rng'\<rparr>"
      define tbo1 where "tbo1 = map (\<lambda>(param_option, transitions).
                              (param_option,
                               map (reabstract (new_holds p c) p (co_get_negation env p))
                                 transitions)) tbo"
      from Inr r Some pc Suc.prems
      have "invention_loop env fuel (self1, tbo1) = Some (Inr (self', tbo'))"
        by (simp add: invention_iteration_def Let_def self1_def tbo1_def)
      from Suc.IH [OF this] show ?thesis
        by (auto simp: self1_def)
    qed
  qed
qed

lemma family_0: "adding 0 = transition1" "idle 0 = transition2"
  by (simp_all add: adding_def idle_def transition1_eq transition2_eq invented_atoms_def)

lemma family_state_0: "family_state 0 = (fresh_approach, [(dummy, [transition1, transition2])])"
  by (simp add: family_state_def fresh_approach_def family_0)

theorem invention_iteration_adds_pair_witness:
  "invent_for_some_operator (cup_env (1 / 2)) 0 [(dummy, [transition1, transition2])] ()
     = Inr (Some (invented 0, vec_classifier (\<lambda>x. True)), ())
   \<and> pred_name (invented 0) = ''InventedPredicate-0''
   \<and> (\<exists>self' tbo'.
        invention_iteration (cup_env (1 / 2))
          (fresh_approach, [(dummy, [transition1, transition2])]) = Inr ((self', tbo'), True)
        \<and> learned_predicates self' = {Pred ''InventedPredicate-0'' [cup_type],
                                        Pred ''NOT-InventedPredicate-0'' [cup_type]}
        \<and> num_inventions self' = 1)
   \<and> invent_for_some_operator (cup_env 1) 0 [(dummy, [transition1, transition2])] ()
       = Inr (None, ())
   \<and> invention_loop (cup_env 1) (Suc 0) (fresh_approach, [(dummy, [transition1, transition2])])
       = Some (Inr (fresh_approach, [(dummy, [transition1, transition2])]))"
proof -
  have a: "invent_for_some_operator (cup_env (1 / 2)) (num_inventions fresh_approach)
       [(dummy, [transition1, transition2])] (approach_rng fresh_approach)
     = Inr (Some (invented 0, vec_classifier (\<lambda>x. True)), ())"
    using invent_some_family [of "1 / 2" 0] by (simp add: family_0 fresh_approach_def)
  have b: "invent_for_some_operator (cup_env 1) (num_inventions fresh_approach)
       [(dummy, [transition1, transition2])] (approach_rng fresh_approach) = Inr (None, ())"
    using invent_some_family [of 1 0] by (simp add: family_0 fresh_approach_def)
  note t1 = invention_iteration_adds_pair
    [of "cup_env (1 / 2)" fresh_approach "[(dummy, [transition1, transition2])]"
        "invented 0" "vec_classifier (\<lambda>x. True)" "()" 0, THEN conjunct1, rule_format, OF a]
  note t2 = invention_iteration_adds_pair
    [of "cup_env 1" fresh_approach "[(dummy, [transition1, transition2])]"
        "invented 0" "vec_classifier (\<lambda>x. True)" "()" 0, THEN conjunct2, rule_format, OF b]
  have g: "co_get_negation (cup_env (1 / 2)) = negation" by (simp add: cup_env_def)
  from t1 have 1: "pred_name (invented 0) = ''InventedPredicate-0''"
    and 2: "\<exists>self' tbo'.
        invention_iteration (cup_env (1 / 2))
          (fresh_approach, [(dummy, [transition1, transition2])]) = Inr ((self', tbo'), True)
        \<and> learned_predicates self' = {Pred ''InventedPredicate-0'' [cup_type],
                                        Pred ''NOT-InventedPredicate-0'' [cup_type]}
        \<and> num_inventions self' = 1"
    unfolding g by (auto simp: fresh_approach_def str_nat_0 invented_def negation_def)
  from t2 have 3: "invention_loop (cup_env 1) (Suc 0)
        (fresh_approach, [(dummy, [transition1, transition2])])
       = Some (Inr (fresh_approach, [(dummy, [transition1, transition2])]))"
    by (simp add: fresh_approach_def)
  from a b 1 2 3 show ?thesis by (simp add: fresh_approach_def)
qed

theorem invention_loop_returns_witness:
  "invention_loop (cup_env 1) (Suc 0) (fresh_approach, [(dummy, [transition1, transition2])])
     = Some (Inr (fresh_approach, [(dummy, [transition1, transition2])]))
   \<and> num_inventions fresh_approach - num_inventions fresh_approach < Suc 0
   \<and> (\<exists>rng. invent_for_some_operator (cup_env 1) (num_inventions fresh_approach)
               [(dummy, [transition1, transition2])] rng
             = Inr (None, approach_rng fresh_approach))"
proof -
  have b: "invent_for_some_operator (cup_env 1) 0
       [(dummy, [transition1, transition2])] () = Inr (None, ())"
    using invent_some_family [of 1 0] by (simp add: family_0)
  have l: "invention_loop (cup_env 1) (Suc 0)
      (fresh_approach, [(dummy, [transition1, transition2])])
     = Some (Inr (fresh_approach, [(dummy, [transition1, transition2])]))"
    by (simp add: invention_iteration_def fresh_approach_def b)
  from invention_loop_returns [OF l] l show ?thesis by blast
qed

text \<open>
  C7 as stated fails. With an accept score of one half, on the dataset of the two
  transitions from the same state, operator learning gives one operator with one
  parameter, hence one non-empty parameter subset, and the invention loop does not return
  within any number of iterations: both examples have the same vector, every classifier
  has a fit score of one half, and the invented predicate never separates the two
  transitions.
\<close>

theorem invention_loop_diverges:
  "generate_transitions Inr pred0_holds
     [([state04, state09], [dummy_option]), ([state04, state04], [dummy_option])] {pred0}
     = Inr [(dummy, [transition1, transition2])]
   \<and> (\<exists>operator.
        learn_operators_for_option no_models pred0_holds (one_object_unify cup0) 1 dummy
          [transition1, transition2] False = Inr [operator]
        \<and> powerset_nonempty (op_parameters operator) = [[x0_cup]])
   \<and> (\<forall>fuel. invention_loop (cup_env (1 / 2)) fuel
                 (fresh_approach, [(dummy, [transition1, transition2])]) = None)"
proof -
  have g: "generate_transitions Inr pred0_holds
     [([state04, state09], [dummy_option]), ([state04, state04], [dummy_option])] {pred0}
     = Inr [(dummy, [transition1, transition2])]"
    using initial_family by (simp add: family_state_0)
  have o: "\<exists>operator.
        learn_operators_for_option no_models pred0_holds (one_object_unify cup0) 1 dummy
          [transition1, transition2] False = Inr [operator]
        \<and> powerset_nonempty (op_parameters operator) = [[x0_cup]]"
    by (simp add: operators_cup powerset_x0)
  have "invention_loop (cup_env (1 / 2)) fuel
                 (fresh_approach, [(dummy, [transition1, transition2])]) = None" for fuel
    using loop_family [of "1 / 2" fuel 0] by (simp add: family_state_0)
  with g o show ?thesis by blast
qed

end
